theory Spec2Isabelle
  imports Complex_Main
begin

section \<open>Circuit breaker (utils/retry.py)\<close>

text \<open>
  Wall-clock instants (\<open>datetime.utcnow()\<close>) and durations in seconds are real
  numbers. Every function that reads the clock in the source takes the instant it read
  as the argument \<open>now\<close>.
\<close>

type_synonym datetime = real

datatype CircuitState = CLOSED | OPEN | HALF_OPEN

text \<open>
  The dataclass \<open>CircuitBreaker\<close>. The private fields \<open>_state\<close>, \<open>_failure_count\<close>,
  \<open>_last_failure_time\<close> and \<open>_half_open_calls\<close> carry the prefix \<open>cb\<close> here.
\<close>

record CircuitBreaker =
  name :: string
  failure_threshold :: int
  recovery_timeout :: real
  half_open_max_calls :: int
  cb_state :: CircuitState
  cb_failure_count :: int
  cb_last_failure_time :: "datetime option"
  cb_half_open_calls :: int

text \<open>The constructor: the four \<open>init=False\<close> fields start from their defaults.\<close>

definition new_breaker :: "string \<Rightarrow> int \<Rightarrow> real \<Rightarrow> int \<Rightarrow> CircuitBreaker" where
  "new_breaker n thr tmo hmax =
     \<lparr>name = n, failure_threshold = thr, recovery_timeout = tmo, half_open_max_calls = hmax,
      cb_state = CLOSED, cb_failure_count = 0, cb_last_failure_time = None,
      cb_half_open_calls = 0\<rparr>"

text \<open>
  The property \<open>state\<close>: reading it may move an OPEN breaker to HALF_OPEN, so the model
  returns the state read together with the breaker after the read.
\<close>

definition state :: "datetime \<Rightarrow> CircuitBreaker \<Rightarrow> CircuitState \<times> CircuitBreaker" where
  "state now cb =
     (if cb_state cb = OPEN then
        (case cb_last_failure_time cb of
           None \<Rightarrow> (cb_state cb, cb)
         | Some t \<Rightarrow>
             (let elapsed = now - t in
              if elapsed \<ge> recovery_timeout cb
              then (HALF_OPEN, cb\<lparr>cb_state := HALF_OPEN, cb_half_open_calls := 0\<rparr>)
              else (cb_state cb, cb)))
      else (cb_state cb, cb))"

definition record_success :: "CircuitBreaker \<Rightarrow> CircuitBreaker" where
  "record_success cb =
     (if cb_state cb = HALF_OPEN then
        (let cb1 = cb\<lparr>cb_half_open_calls := cb_half_open_calls cb + 1\<rparr> in
         if cb_half_open_calls cb1 \<ge> half_open_max_calls cb1
         then cb1\<lparr>cb_state := CLOSED, cb_failure_count := 0\<rparr>
         else cb1)
      else if cb_state cb = CLOSED then cb\<lparr>cb_failure_count := 0\<rparr>
      else cb)"

definition record_failure :: "datetime \<Rightarrow> CircuitBreaker \<Rightarrow> CircuitBreaker" where
  "record_failure now cb =
     (let cb1 = cb\<lparr>cb_failure_count := cb_failure_count cb + 1,
                    cb_last_failure_time := Some now\<rparr> in
      if cb_state cb1 = HALF_OPEN then cb1\<lparr>cb_state := OPEN\<rparr>
      else if cb_state cb1 = CLOSED then
        (if cb_failure_count cb1 \<ge> failure_threshold cb1 then cb1\<lparr>cb_state := OPEN\<rparr> else cb1)
      else cb1)"

definition can_execute :: "datetime \<Rightarrow> CircuitBreaker \<Rightarrow> bool \<times> CircuitBreaker" where
  "can_execute now cb =
     (case state now cb of (s, cb') \<Rightarrow>
        if s = CLOSED then (True, cb')
        else if s = HALF_OPEN then (True, cb')
        else (False, cb'))"

text \<open>A run of recorded failures, one per instant of the list, oldest first.\<close>

fun record_failures :: "datetime list \<Rightarrow> CircuitBreaker \<Rightarrow> CircuitBreaker" where
  "record_failures [] cb = cb"
| "record_failures (t # ts) cb = record_failures ts (record_failure t cb)"

text \<open>A run of \<open>n\<close> recorded successes.\<close>

fun record_successes :: "nat \<Rightarrow> CircuitBreaker \<Rightarrow> CircuitBreaker" where
  "record_successes 0 cb = cb"
| "record_successes (Suc n) cb = record_successes n (record_success cb)"


section \<open>Exceptions (utils/exceptions.py) and results\<close>

text \<open>
  A raised exception is a value. Each constructor carries the constructor arguments of the
  Python class; \<open>NetworkException\<close> carries its message and its details dictionary.
  \<open>IntegrityError\<close> is sqlite's, \<open>AttributeError\<close>, \<open>TypeError\<close> and \<open>RuntimeError\<close>
  are Python's own.
\<close>

datatype exn =
    NetworkException string "(string \<times> string) list"
  | APITimeoutException string real
  | APIConnectionException string string
  | UserNotFoundException int
  | UserBlockedException int "string option"
  | InsufficientBalanceException int real real
  | DuplicateTransactionException string string
  | IntegrityError string
  | AttributeError string
  | TypeError string
  | RuntimeError string

text \<open>The classes that occur in an \<open>exceptions=\<close> tuple, and \<open>isinstance\<close> on them.\<close>

datatype exn_class =
    class_Exception
  | class_BotBaseException
  | class_NetworkException
  | class_APITimeoutException
  | class_APIConnectionException

fun mro :: "exn \<Rightarrow> exn_class list" where
  "mro (NetworkException m d) = [class_NetworkException, class_BotBaseException, class_Exception]"
| "mro (APITimeoutException sv t) =
     [class_APITimeoutException, class_NetworkException, class_BotBaseException, class_Exception]"
| "mro (APIConnectionException sv r) =
     [class_APIConnectionException, class_NetworkException, class_BotBaseException, class_Exception]"
| "mro (UserNotFoundException u) = [class_BotBaseException, class_Exception]"
| "mro (UserBlockedException u r) = [class_BotBaseException, class_Exception]"
| "mro (InsufficientBalanceException u r a) = [class_BotBaseException, class_Exception]"
| "mro (DuplicateTransactionException k t) = [class_BotBaseException, class_Exception]"
| "mro (IntegrityError m) = [class_Exception]"
| "mro (AttributeError m) = [class_Exception]"
| "mro (TypeError m) = [class_Exception]"
| "mro (RuntimeError m) = [class_Exception]"

definition isinstance :: "exn \<Rightarrow> exn_class list \<Rightarrow> bool" where
  "isinstance e classes = list_ex (\<lambda>c. c \<in> set (mro e)) classes"

text \<open>What a call does: it returns a value or raises.\<close>

datatype 'a outcome = Returned 'a | Raised exn

section \<open>Floating-point arithmetic\<close>

text \<open>
  Python's \<open>float\<close> and SQLite's \<open>REAL\<close> are IEEE doubles. A float is taken as the real
  number it denotes, and comparing two floats compares these numbers. Addition,
  subtraction and multiplication round their result; what \<open>x + y\<close>, \<open>x - y\<close> and
  \<open>x * y\<close> evaluate to on floats is given by \<open>fadd\<close>, \<open>fsub\<close> and \<open>fmul\<close>, and nothing is
  assumed of them.
\<close>

record float_ops =
  fadd :: "real \<Rightarrow> real \<Rightarrow> real"
  fsub :: "real \<Rightarrow> real \<Rightarrow> real"
  fmul :: "real \<Rightarrow> real \<Rightarrow> real"

section \<open>Retry executor (utils/retry.py)\<close>

record Config =
  MAX_RETRIES :: int
  RETRY_DELAY :: real
  RETRY_BACKOFF :: real

text \<open>
  The state a run of \<open>retry_async\<close> works on: the attached breaker (the shared object
  passed as \<open>circuit_breaker\<close>, \<open>None\<close> when there is none), the clock, the number of
  times the wrapped operation has been invoked, the delays handed to \<open>asyncio.sleep\<close> in
  order, and the calls made to an \<open>on_retry\<close> callback. A run is followed on its own:
  no other coroutine touches the breaker between its steps.
\<close>

record rstate =
  breaker :: "CircuitBreaker option"
  clock :: datetime
  invocations :: nat
  sleeps :: "real list"
  retry_log :: "(int \<times> exn) list"

text \<open>
  The wrapped operation is an oracle: its \<open>k\<close>-th invocation (counted from 0) yields an
  outcome and lasts the given number of seconds.
\<close>

definition invoke :: "(nat \<Rightarrow> 'a outcome \<times> real) \<Rightarrow> rstate \<Rightarrow> 'a outcome \<times> rstate" where
  "invoke func s =
     (case func (invocations s) of (r, d) \<Rightarrow>
        (r, s\<lparr>invocations := Suc (invocations s), clock := clock s + d\<rparr>))"

text \<open>\<open>asyncio.sleep(d)\<close>: the delay is recorded and the clock moves on by it.\<close>

definition sleep :: "real \<Rightarrow> rstate \<Rightarrow> rstate" where
  "sleep d s = s\<lparr>sleeps := sleeps s @ [d], clock := clock s + max 0 d\<rparr>"

fun state_value :: "CircuitState \<Rightarrow> string" where
  "state_value CLOSED = ''closed''"
| "state_value OPEN = ''open''"
| "state_value HALF_OPEN = ''half_open''"

text \<open>
  The check at the head of each iteration. With no breaker attached the attempt goes
  ahead. A breaker that cannot execute makes the run raise; building the exception reads
  the \<open>state\<close> property once more.
\<close>

definition check_breaker :: "rstate \<Rightarrow> exn option \<times> rstate" where
  "check_breaker s =
     (case breaker s of
        None \<Rightarrow> (None, s)
      | Some cb \<Rightarrow>
          (case can_execute (clock s) cb of
             (True, cb1) \<Rightarrow> (None, s\<lparr>breaker := Some cb1\<rparr>)
           | (False, cb1) \<Rightarrow>
               (case state (clock s) cb1 of (st, cb2) \<Rightarrow>
                  (Some (NetworkException
                           (''Service '' @ name cb2 @ '' unavailable (circuit breaker open)'')
                           [(''circuit_state'', state_value st)]),
                   s\<lparr>breaker := Some cb2\<rparr>))))"

text \<open>
  The loop \<open>for attempt in range(max_retries + 1)\<close>, as a recursion over the attempts
  still to make. The first equation is the statement after the loop,
  \<open>raise last_exception\<close>; raising \<open>None\<close> is a \<open>TypeError\<close> in Python.
\<close>

fun retry_loop ::
  "float_ops \<Rightarrow> (nat \<Rightarrow> 'a outcome \<times> real) \<Rightarrow> exn_class list \<Rightarrow> bool \<Rightarrow> int \<Rightarrow> real \<Rightarrow>
   int list \<Rightarrow> real \<Rightarrow> exn option \<Rightarrow> rstate \<Rightarrow> 'a outcome \<times> rstate" where
  "retry_loop fl func exceptions on_retry max_retries backoff [] current_delay last_exception s =
     (case last_exception of
        None \<Rightarrow> (Raised (TypeError ''exceptions must derive from BaseException''), s)
      | Some e \<Rightarrow> (Raised e, s))"
| "retry_loop fl func exceptions on_retry max_retries backoff (attempt # rest) current_delay
     last_exception s =
     (case check_breaker s of
        (Some rejected, s1) \<Rightarrow> (Raised rejected, s1)
      | (None, s1) \<Rightarrow>
          (case invoke func s1 of
             (Returned result, s2) \<Rightarrow>
               (Returned result, s2\<lparr>breaker := map_option record_success (breaker s2)\<rparr>)
           | (Raised e, s2) \<Rightarrow>
               if isinstance e exceptions then
                 (let s3 = s2\<lparr>breaker := map_option (record_failure (clock s2)) (breaker s2)\<rparr> in
                  if attempt < max_retries then
                    (let s4 = (if on_retry
                               then s3\<lparr>retry_log := retry_log s3 @ [(attempt + 1, e)]\<rparr>
                               else s3);
                         s5 = sleep current_delay s4
                     in retry_loop fl func exceptions on_retry max_retries backoff rest
                          (fmul fl current_delay backoff) (Some e) s5)
                  else retry_loop fl func exceptions on_retry max_retries backoff rest
                         current_delay (Some e) s3)
               else (Raised e, s2)))"

text \<open>\<open>range(n)\<close> for an integer \<open>n\<close>: empty when \<open>n \<le> 0\<close>.\<close>

definition range_int :: "int \<Rightarrow> int list" where
  "range_int n = map int [0 ..< nat n]"

text \<open>\<open>x if x is not None else default\<close>.\<close>

definition or_default :: "'a option \<Rightarrow> 'a \<Rightarrow> 'a" where
  "or_default x dflt = (case x of Some v \<Rightarrow> v | None \<Rightarrow> dflt)"

definition retry_async ::
  "float_ops \<Rightarrow> Config \<Rightarrow> (nat \<Rightarrow> 'a outcome \<times> real) \<Rightarrow> int option \<Rightarrow> real option \<Rightarrow> real option \<Rightarrow>
   exn_class list \<Rightarrow> bool \<Rightarrow> rstate \<Rightarrow> 'a outcome \<times> rstate" where
  "retry_async fl config func max_retries delay backoff exceptions on_retry s =
     (let max_retries1 = or_default max_retries (MAX_RETRIES config);
          delay1 = or_default delay (RETRY_DELAY config);
          backoff1 = or_default backoff (RETRY_BACKOFF config)
      in retry_loop fl func exceptions on_retry max_retries1 backoff1
           (range_int (max_retries1 + 1)) delay1 None s)"

section \<open>External wallet client (services/ichancy_service.py)\<close>

text \<open>
  A parsed JSON value as Python holds it: \<open>None\<close>, a bool, a number, a string, a list or
  a dict (an association list, looked up by key). \<open>JNull\<close> also stands for Python's
  \<open>None\<close> in an optional field.
\<close>

datatype json =
    JNull
  | JBool bool
  | JNum real
  | JStr string
  | JArr "json list"
  | JObj "(string \<times> json) list"

text \<open>Python's truth value of such a value.\<close>

fun truthy :: "json \<Rightarrow> bool" where
  "truthy JNull = False"
| "truthy (JBool b) = b"
| "truthy (JNum x) = (x \<noteq> 0)"
| "truthy (JStr s) = (s \<noteq> [])"
| "truthy (JArr xs) = (xs \<noteq> [])"
| "truthy (JObj kvs) = (kvs \<noteq> [])"

text \<open>\<open>d.get(k)\<close>, \<open>d.get(k, default)\<close> and \<open>a or b\<close>.\<close>

definition dict_get :: "(string \<times> json) list \<Rightarrow> string \<Rightarrow> json" where
  "dict_get d k = (case map_of d k of None \<Rightarrow> JNull | Some v \<Rightarrow> v)"

definition dict_get_default :: "(string \<times> json) list \<Rightarrow> string \<Rightarrow> json \<Rightarrow> json" where
  "dict_get_default d k dflt = (case map_of d k of None \<Rightarrow> dflt | Some v \<Rightarrow> v)"

definition py_or :: "json \<Rightarrow> json \<Rightarrow> json" where
  "py_or a b = (if truthy a then a else b)"

text \<open>Decimal rendering of an integer, for the f-strings that format one.\<close>

fun str_nat :: "nat \<Rightarrow> string" where
  "str_nat n =
     (if n < 10 then [''0123456789'' ! n]
      else str_nat (n div 10) @ [''0123456789'' ! (n mod 10)])"

declare str_nat.simps [simp del]

definition str_int :: "int \<Rightarrow> string" where
  "str_int i = (if i < 0 then CHR ''-'' # str_nat (nat (- i)) else str_nat (nat i))"

record IchancyResponse =
  success :: bool
  data :: json
  error :: json
  raw_response :: json

text \<open>
  What \<open>requests\<close> hands back: a response with its status, its body and the result of
  \<open>response.json()\<close> (\<open>None\<close> when that raises \<open>ValueError\<close>), or one of the three
  exception handlers of \<open>_request\<close>. The method \<open>IchancyService._request\<close> is \<open>request\<close>
  below; its first argument is \<open>self.timeout\<close>.
\<close>

record http_response =
  status_code :: int
  resp_text :: string
  parsed_json :: "json option"

datatype transport =
    Response http_response
  | Timeout
  | ConnectionError string
  | OtherError string

definition request :: "real \<Rightarrow> transport \<Rightarrow> IchancyResponse outcome" where
  "request timeout tr =
     (case tr of
        Response response \<Rightarrow>
          if status_code response \<ge> 400 then
            Returned \<lparr>success = False, data = JNull,
                      error = JStr (''HTTP '' @ str_int (status_code response) @ '': '' @ resp_text response),
                      raw_response = JStr (resp_text response)\<rparr>
          else
            (case parsed_json response of
               Some d \<Rightarrow>
                 (case d of
                    JObj kvs \<Rightarrow>
                      if dict_get kvs ''hasError'' = JStr ''yes'' \<or> truthy (dict_get kvs ''error'')
                         \<or> dict_get kvs ''status'' = JStr ''error''
                      then
                        (let error_msg =
                               py_or (dict_get kvs ''msg'')
                                 (py_or (dict_get kvs ''error'')
                                    (dict_get_default kvs ''message'' (JStr ''Unknown error'')))
                         in Returned \<lparr>success = False, data = d, error = error_msg,
                                       raw_response = d\<rparr>)
                      else Returned \<lparr>success = True, data = d, error = JNull, raw_response = d\<rparr>
                  | _ \<Rightarrow> Returned \<lparr>success = True, data = d, error = JNull, raw_response = d\<rparr>)
             | None \<Rightarrow>
                 Returned \<lparr>success = True, data = JObj [(''raw'', JStr (resp_text response))],
                           error = JNull, raw_response = JStr (resp_text response)\<rparr>)
      | Timeout \<Rightarrow> Raised (APITimeoutException ''ichancy'' timeout)
      | ConnectionError reason \<Rightarrow> Raised (APIConnectionException ''ichancy'' reason)
      | OtherError msg \<Rightarrow> Raised (NetworkException (''Ichancy API error: '' @ msg) []))"


section \<open>Data model (db/models.py)\<close>

datatype TransactionType = DEPOSIT | WITHDRAWAL | BONUS | REFUND | ADJUSTMENT

datatype TransactionState =
  PENDING | PROCESSING | COMPLETED | FAILED | PARTIALLY_FAILED | CANCELLED | REVERSED

fun valid_transitions :: "TransactionState \<Rightarrow> TransactionState list" where
  "valid_transitions PENDING = [PROCESSING, CANCELLED]"
| "valid_transitions PROCESSING = [COMPLETED, FAILED, PARTIALLY_FAILED]"
| "valid_transitions COMPLETED = [REVERSED]"
| "valid_transitions FAILED = [PENDING]"
| "valid_transitions PARTIALLY_FAILED = []"
| "valid_transitions CANCELLED = []"
| "valid_transitions REVERSED = []"

definition can_transition_to :: "TransactionState \<Rightarrow> TransactionState \<Rightarrow> bool" where
  "can_transition_to self new_state = (new_state \<in> set (valid_transitions self))"

fun transaction_state_value :: "TransactionState \<Rightarrow> string" where
  "transaction_state_value PENDING = ''pending''"
| "transaction_state_value PROCESSING = ''processing''"
| "transaction_state_value COMPLETED = ''completed''"
| "transaction_state_value FAILED = ''failed''"
| "transaction_state_value PARTIALLY_FAILED = ''partially_failed''"
| "transaction_state_value CANCELLED = ''cancelled''"
| "transaction_state_value REVERSED = ''reversed''"

datatype PaymentProvider = SYRIATEL_CASH | SHAM_CASH | MANUAL

text \<open>\<open>PaymentState\<close>; its members PENDING and FAILED carry a prefix here.\<close>

datatype PaymentState = PAYMENT_PENDING | VERIFIED | PAYMENT_FAILED | EXPIRED

datatype UserState = ACTIVE | BLOCKED | PENDING_VERIFICATION

text \<open>
  The dataclasses. Fields that several classes share (\<open>id\<close>, \<open>user_id\<close>, \<open>state\<close>,
  \<open>amount\<close>, \<open>created_at\<close>, \<open>updated_at\<close>, \<open>transaction_id\<close>) carry the prefix
  \<open>u\<close>, \<open>t\<close> or \<open>p\<close> of their class. Amounts and balances are Python floats,
  taken as real numbers.
\<close>

record User =
  u_id :: int
  telegram_username :: "string option"
  ichancy_username :: "string option"
  ichancy_password :: "string option"
  ichancy_registered :: bool
  u_state :: UserState
  local_balance :: real
  total_deposited :: real
  total_withdrawn :: real
  u_created_at :: datetime
  u_updated_at :: datetime
  blocked_reason :: "string option"

record Transaction =
  t_id :: string
  t_user_id :: int
  t_type :: TransactionType
  t_state :: TransactionState
  t_amount :: real
  currency :: string
  idempotency_key :: "string option"
  payment_reference :: "string option"
  ichancy_reference :: "string option"
  processing_started_at :: "datetime option"
  completed_at :: "datetime option"
  error_message :: "string option"
  retry_count :: int
  t_created_at :: datetime
  t_updated_at :: datetime
  balance_before :: "real option"
  balance_after :: "real option"

record Payment =
  p_id :: string
  p_user_id :: int
  p_transaction_id :: "string option"
  provider :: PaymentProvider
  p_state :: PaymentState
  p_amount :: real
  provider_reference :: "string option"
  phone_number :: "string option"
  verified_at :: "datetime option"
  verification_attempts :: int
  p_created_at :: datetime
  expires_at :: "datetime option"

section \<open>Storage and environment\<close>

text \<open>
  The three tables the workflows touch, each a list of rows in insertion order. A
  \<open>SELECT ... WHERE\<close> followed by \<open>fetchone\<close> is \<open>find\<close>; an \<open>UPDATE ... WHERE\<close> maps over
  the rows.
\<close>

record database =
  users :: "User list"
  transactions :: "Transaction list"
  payments :: "Payment list"

text \<open>A call made to the external wallet service, with its arguments.\<close>

datatype ext_call =
    ExtDeposit string real
  | ExtWithdrawal string real
  | ExtGetPlayerBalance string

text \<open>
  The world the settlement code runs in: the database, the clock, how many UUIDs have been
  drawn, and the calls made to the external wallet so far, oldest first.
\<close>

record world =
  db :: database
  w_clock :: datetime
  uuids_used :: nat
  ext_calls :: "ext_call list"

text \<open>
  What the code takes from outside. \<open>uuid4 k\<close> is the \<open>k\<close>-th UUID drawn, in its
  canonical text form. \<open>ichancy c k\<close> is what the external wallet client (one of the
  retry-wrapped methods \<open>deposit\<close>, \<open>withdrawal\<close>, \<open>get_player_balance\<close>) does when
  call \<open>c\<close> is the \<open>k\<close>-th call made: its outcome and how long it lasts.
  \<open>str_float\<close>, \<open>str_json\<close> and \<open>str_exn\<close> are Python's formatting of a float, of an error
  value and of an exception inside an f-string or \<open>str()\<close>. \<open>fops\<close> is the arithmetic
  of floats, in Python and in SQLite.
\<close>

record env =
  uuid4 :: "nat \<Rightarrow> string"
  ichancy :: "ext_call \<Rightarrow> nat \<Rightarrow> IchancyResponse outcome \<times> real"
  str_float :: "real \<Rightarrow> string"
  str_json :: "json \<Rightarrow> string"
  str_exn :: "exn \<Rightarrow> string"
  fops :: float_ops

text \<open>
  An awaited coroutine takes the world and yields an outcome and the world after it.
  \<open>await m f\<close> runs \<open>m\<close> and passes its value to \<open>f\<close>; an exception raised by \<open>m\<close>
  propagates. \<open>try_except body handler\<close> is \<open>try: body except Exception as e: handler\<close>.
\<close>

type_synonym 'a action = "world \<Rightarrow> 'a outcome \<times> world"

definition return_value :: "'a \<Rightarrow> 'a action" where
  "return_value x w = (Returned x, w)"

definition raise_exn :: "exn \<Rightarrow> 'a action" where
  "raise_exn e w = (Raised e, w)"

definition await :: "'a action \<Rightarrow> ('a \<Rightarrow> 'b action) \<Rightarrow> 'b action" where
  "await m f w = (case m w of (Returned x, w1) \<Rightarrow> f x w1 | (Raised e, w1) \<Rightarrow> (Raised e, w1))"

definition try_except :: "'a action \<Rightarrow> (exn \<Rightarrow> 'a action) \<Rightarrow> 'a action" where
  "try_except body handler w =
     (case body w of (Returned x, w1) \<Rightarrow> (Returned x, w1) | (Raised e, w1) \<Rightarrow> handler e w1)"

definition utcnow :: "datetime action" where
  "utcnow w = (Returned (w_clock w), w)"

definition draw_uuid4 :: "env \<Rightarrow> string action" where
  "draw_uuid4 ev w = (Returned (uuid4 ev (uuids_used w)), w\<lparr>uuids_used := Suc (uuids_used w)\<rparr>)"

definition call_ichancy :: "env \<Rightarrow> ext_call \<Rightarrow> IchancyResponse action" where
  "call_ichancy ev c w =
     (case ichancy ev c (length (ext_calls w)) of (r, d) \<Rightarrow>
        (r, w\<lparr>ext_calls := ext_calls w @ [c], w_clock := w_clock w + d\<rparr>))"


section \<open>Repositories (db/repository.py)\<close>

text \<open>
  A static method \<open>C.m\<close> of a repository class is the constant \<open>C_m\<close>. Connection
  failures of the database are not modelled; what a statement can raise is the violation
  of a uniqueness constraint.
\<close>

definition UserRepository_get_by_id :: "int \<Rightarrow> User option action" where
  "UserRepository_get_by_id user_id w =
     (Returned (find (\<lambda>u. u_id u = user_id) (users (db w))), w)"

text \<open>
  \<open>update_balance\<close>: one \<open>UPDATE users\<close> statement inside one \<open>db.transaction()\<close>; it sets
  the balance and adds the two deltas to the cumulative totals of the same row; the
  additions are SQLite's, on \<open>REAL\<close> columns.
\<close>

definition UserRepository_update_balance ::
  "float_ops \<Rightarrow> int \<Rightarrow> real \<Rightarrow> real \<Rightarrow> real \<Rightarrow> bool action" where
  "UserRepository_update_balance fl user_id new_balance deposit_delta withdraw_delta w =
     (Returned True,
      w\<lparr>db := (db w)\<lparr>users :=
           map (\<lambda>u. if u_id u = user_id
                     then u\<lparr>local_balance := new_balance,
                            total_deposited := fadd fl (total_deposited u) deposit_delta,
                            total_withdrawn := fadd fl (total_withdrawn u) withdraw_delta,
                            u_updated_at := w_clock w\<rparr>
                     else u)
               (users (db w))\<rparr>\<rparr>)"

definition TransactionRepository_get_by_id :: "string \<Rightarrow> Transaction option action" where
  "TransactionRepository_get_by_id transaction_id w =
     (Returned (find (\<lambda>t. t_id t = transaction_id) (transactions (db w))), w)"

definition TransactionRepository_get_by_idempotency_key :: "string \<Rightarrow> Transaction option action" where
  "TransactionRepository_get_by_idempotency_key key w =
     (Returned (find (\<lambda>t. idempotency_key t = Some key) (transactions (db w))), w)"

text \<open>
  The \<open>INSERT INTO transactions\<close>. The schema makes \<open>id\<close> the primary key and
  \<open>idempotency_key\<close> UNIQUE (NULLs do not collide); a violation raises sqlite's
  \<open>IntegrityError\<close> and the transaction rolls back. The statement names thirteen columns;
  the other four take the schema's defaults.
\<close>

definition insert_transaction :: "Transaction \<Rightarrow> unit action" where
  "insert_transaction txn w =
     (if list_ex (\<lambda>r. t_id r = t_id txn
                    \<or> (idempotency_key txn \<noteq> None \<and> idempotency_key r = idempotency_key txn))
           (transactions (db w))
      then (Raised (IntegrityError ''UNIQUE constraint failed''), w)
      else (Returned (),
            w\<lparr>db := (db w)\<lparr>transactions := transactions (db w) @
                 [txn\<lparr>processing_started_at := None, completed_at := None,
                      error_message := None, retry_count := 0\<rparr>]\<rparr>\<rparr>))"

definition TransactionRepository_create :: "Transaction \<Rightarrow> Transaction action" where
  "TransactionRepository_create txn =
     await (case idempotency_key txn of
              None \<Rightarrow> return_value ()
            | Some key \<Rightarrow>
                if key \<noteq> [] then
                  await (TransactionRepository_get_by_idempotency_key key) (\<lambda>existing.
                    case existing of
                      Some ex \<Rightarrow> raise_exn (DuplicateTransactionException key (t_id ex))
                    | None \<Rightarrow> return_value ())
                else return_value ())
       (\<lambda>_. await (insert_transaction txn) (\<lambda>_. return_value txn))"

text \<open>
  \<open>UPDATE transactions SET ... WHERE id = ?\<close>: the assignment \<open>f\<close> is applied to the
  rows with that identifier.
\<close>

definition update_transaction_row :: "string \<Rightarrow> (Transaction \<Rightarrow> Transaction) \<Rightarrow> unit action" where
  "update_transaction_row transaction_id f w =
     (Returned (),
      w\<lparr>db := (db w)\<lparr>transactions :=
           map (\<lambda>r. if t_id r = transaction_id then f r else r) (transactions (db w))\<rparr>\<rparr>)"

text \<open>
  The columns \<open>update_state\<close> writes: always \<open>state\<close>, \<open>updated_at\<close> and
  \<open>error_message\<close>, and one of the two timestamps depending on the new state.
\<close>

definition state_updates ::
  "TransactionState \<Rightarrow> datetime \<Rightarrow> string option \<Rightarrow> Transaction \<Rightarrow> Transaction" where
  "state_updates new_state now error_msg r =
     (let r1 = r\<lparr>t_state := new_state, t_updated_at := now, error_message := error_msg\<rparr>
      in if new_state = PROCESSING then r1\<lparr>processing_started_at := Some now\<rparr>
         else if new_state = COMPLETED \<or> new_state = FAILED then r1\<lparr>completed_at := Some now\<rparr>
         else r1)"

definition TransactionRepository_update_state ::
  "string \<Rightarrow> TransactionState \<Rightarrow> string option \<Rightarrow> bool action" where
  "TransactionRepository_update_state transaction_id new_state error_msg =
     await (TransactionRepository_get_by_id transaction_id) (\<lambda>found.
       case found of
         None \<Rightarrow> return_value False
       | Some txn \<Rightarrow>
           if \<not> can_transition_to (t_state txn) new_state then return_value False
           else
             await utcnow (\<lambda>now.
               await (update_transaction_row transaction_id (state_updates new_state now error_msg))
                 (\<lambda>_. return_value True)))"

text \<open>
  \<open>update\<close>: the full update. It writes eleven columns from the object the caller
  holds, whatever the row holds.
\<close>

definition full_updates :: "Transaction \<Rightarrow> Transaction \<Rightarrow> Transaction" where
  "full_updates txn r =
     r\<lparr>t_state := t_state txn, t_amount := t_amount txn,
       payment_reference := payment_reference txn,
       ichancy_reference := ichancy_reference txn,
       processing_started_at := processing_started_at txn,
       completed_at := completed_at txn,
       error_message := error_message txn,
       retry_count := retry_count txn,
       t_updated_at := t_updated_at txn,
       balance_before := balance_before txn,
       balance_after := balance_after txn\<rparr>"

definition TransactionRepository_update :: "Transaction \<Rightarrow> Transaction action" where
  "TransactionRepository_update txn0 =
     await utcnow (\<lambda>now.
       (let txn = txn0\<lparr>t_updated_at := now\<rparr> in
        await (update_transaction_row (t_id txn) (full_updates txn)) (\<lambda>_. return_value txn)))"

text \<open>
  \<open>PaymentRepository.create\<close>: the \<open>INSERT INTO payments\<close> names ten columns;
  \<open>verified_at\<close> and \<open>verification_attempts\<close> take the schema's defaults.
\<close>

definition PaymentRepository_create :: "Payment \<Rightarrow> Payment action" where
  "PaymentRepository_create payment w =
     (if list_ex (\<lambda>r. p_id r = p_id payment) (payments (db w))
      then (Raised (IntegrityError ''UNIQUE constraint failed''), w)
      else (Returned payment,
            w\<lparr>db := (db w)\<lparr>payments := payments (db w) @
                 [payment\<lparr>verified_at := None, verification_attempts := 0\<rparr>]\<rparr>\<rparr>))"

section \<open>Settlement orchestrator (services/wallet_service.py)\<close>

record DepositResult =
  dr_success :: bool
  dr_transaction_id :: "string option"
  dr_message :: string
  dr_new_balance :: "real option"
  dr_ichancy_balance :: json
  dr_error :: "string option"

record WithdrawalResult =
  wr_success :: bool
  wr_transaction_id :: "string option"
  wr_message :: string
  wr_new_balance :: "real option"
  wr_error :: "string option"

text \<open>
  The dataclass constructors with every field at its default: a fresh UUID as \<open>id\<close>, the
  current instant as \<open>created_at\<close> (and \<open>updated_at\<close>). The callers below then set the
  fields they pass as keyword arguments.
\<close>

definition new_Transaction :: "env \<Rightarrow> Transaction action" where
  "new_Transaction ev =
     await (draw_uuid4 ev) (\<lambda>uid. await utcnow (\<lambda>now.
       return_value
         \<lparr>t_id = uid, t_user_id = 0, t_type = DEPOSIT, t_state = PENDING, t_amount = 0,
          currency = ''SYP'', idempotency_key = None, payment_reference = None,
          ichancy_reference = None, processing_started_at = None, completed_at = None,
          error_message = None, retry_count = 0, t_created_at = now, t_updated_at = now,
          balance_before = None, balance_after = None\<rparr>))"

definition new_Payment :: "env \<Rightarrow> Payment action" where
  "new_Payment ev =
     await (draw_uuid4 ev) (\<lambda>uid. await utcnow (\<lambda>now.
       return_value
         \<lparr>p_id = uid, p_user_id = 0, p_transaction_id = None, provider = SYRIATEL_CASH,
          p_state = PAYMENT_PENDING, p_amount = 0, provider_reference = None,
          phone_number = None, verified_at = None, verification_attempts = 0,
          p_created_at = now, expires_at = None\<rparr>))"

text \<open>\<open>uuid.uuid4().hex[:8]\<close>: the hexadecimal digits of a fresh UUID, the first eight.\<close>

definition draw_hex8 :: "env \<Rightarrow> string action" where
  "draw_hex8 ev =
     await (draw_uuid4 ev) (\<lambda>uid. return_value (take 8 (filter (\<lambda>c. c \<noteq> CHR ''-'') uid)))"

text \<open>
  \<open>if not idempotency_key\<close>: a missing key and an empty one are both replaced by a
  generated key with the given prefix.
\<close>

definition resolve_key :: "env \<Rightarrow> string \<Rightarrow> int \<Rightarrow> real \<Rightarrow> string option \<Rightarrow> string action" where
  "resolve_key ev prefix user_id amount key =
     (if (case key of None \<Rightarrow> True | Some k \<Rightarrow> k = []) then
        await (draw_hex8 ev) (\<lambda>h.
          return_value (prefix @ str_int user_id @ ''_'' @ str_float ev amount @ ''_'' @ h))
      else return_value (the key))"

definition payment_expiry_minutes :: real where
  "payment_expiry_minutes = 30"

definition initiate_deposit ::
  "env \<Rightarrow> int \<Rightarrow> real \<Rightarrow> PaymentProvider \<Rightarrow> string option \<Rightarrow> (Transaction \<times> Payment) action" where
  "initiate_deposit ev user_id amount prov key =
     await (UserRepository_get_by_id user_id) (\<lambda>found.
       case found of
         None \<Rightarrow> raise_exn (UserNotFoundException user_id)
       | Some user \<Rightarrow>
           if u_state user = BLOCKED
           then raise_exn (UserBlockedException user_id (blocked_reason user))
           else
             await (resolve_key ev ''dep_'' user_id amount key) (\<lambda>key1.
             await (new_Transaction ev) (\<lambda>t0.
             await (TransactionRepository_create
                      (t0\<lparr>t_user_id := user_id, t_type := DEPOSIT, t_state := PENDING,
                          t_amount := amount, idempotency_key := Some key1,
                          balance_before := Some (local_balance user)\<rparr>)) (\<lambda>transaction.
             await utcnow (\<lambda>now.
             await (new_Payment ev) (\<lambda>p0.
             await (PaymentRepository_create
                      (p0\<lparr>p_user_id := user_id, p_transaction_id := Some (t_id transaction),
                          provider := prov, p_state := PAYMENT_PENDING, p_amount := amount,
                          expires_at := Some (now + payment_expiry_minutes * 60)\<rparr>)) (\<lambda>payment.
             return_value (transaction, payment))))))))"

text \<open>\<open>_get_transaction_payment\<close>: the first payment row of the transaction.\<close>

definition get_transaction_payment :: "string \<Rightarrow> Payment option action" where
  "get_transaction_payment transaction_id w =
     (Returned (find (\<lambda>p. p_transaction_id p = Some transaction_id) (payments (db w))), w)"

text \<open>\<open>user.ichancy_username\<close> as a condition: set and not empty.\<close>

definition linked :: "User \<Rightarrow> bool" where
  "linked user = (case ichancy_username user of None \<Rightarrow> False | Some n \<Rightarrow> n \<noteq> [])"

text \<open>
  \<open>balance_result.data.get("balance")\<close> under \<open>if balance_result.success and
  balance_result.data\<close>: a truthy value that is not a dict has no \<open>get\<close>.
\<close>

definition read_balance :: "IchancyResponse \<Rightarrow> json action" where
  "read_balance balance_result =
     (if success balance_result \<and> truthy (data balance_result) then
        (case data balance_result of
           JObj kvs \<Rightarrow> return_value (dict_get kvs ''balance'')
         | _ \<Rightarrow> raise_exn (AttributeError ''get''))
      else return_value JNull)"

definition deposit_failure :: "string option \<Rightarrow> string \<Rightarrow> DepositResult" where
  "deposit_failure tid err =
     \<lparr>dr_success = False, dr_transaction_id = tid, dr_message = [], dr_new_balance = None,
      dr_ichancy_balance = JNull, dr_error = Some err\<rparr>"

text \<open>
  \<open>complete_deposit\<close>. Inside the \<open>try\<close>, the first step either returns early (\<open>Inl\<close>,
  the external credit failed) or yields the external balance to report (\<open>Inr\<close>).
\<close>

definition complete_deposit :: "env \<Rightarrow> string \<Rightarrow> bool \<Rightarrow> DepositResult action" where
  "complete_deposit ev transaction_id deposit_to_ichancy =
     await (TransactionRepository_get_by_id transaction_id) (\<lambda>found.
       case found of
         None \<Rightarrow> return_value (deposit_failure None ''Transaction not found'')
       | Some txn \<Rightarrow>
           if t_state txn \<noteq> PENDING then
             return_value (deposit_failure (Some transaction_id)
               (''Transaction in invalid state: '' @ transaction_state_value (t_state txn)))
           else
             await (get_transaction_payment transaction_id) (\<lambda>payment.
               if (case payment of None \<Rightarrow> True | Some p \<Rightarrow> p_state p \<noteq> VERIFIED) then
                 return_value (deposit_failure (Some transaction_id) ''Payment not verified'')
               else
                 await (UserRepository_get_by_id (t_user_id txn)) (\<lambda>found_user.
                   case found_user of
                     None \<Rightarrow> return_value (deposit_failure None ''User not found'')
                   | Some user \<Rightarrow>
                       await (TransactionRepository_update_state transaction_id PROCESSING None) (\<lambda>_.
                         try_except
                           (await
                              (if deposit_to_ichancy \<and> linked user then
                                 await (call_ichancy ev
                                          (ExtDeposit (the (ichancy_username user)) (t_amount txn)))
                                   (\<lambda>ichancy_result.
                                     if \<not> success ichancy_result then
                                       await (TransactionRepository_update_state transaction_id
                                                PARTIALLY_FAILED
                                                (Some (''Ichancy deposit failed: '' @
                                                       str_json ev (error ichancy_result))))
                                         (\<lambda>_. return_value
                                                (Inl (deposit_failure (Some transaction_id)
                                                        (''Ichancy deposit failed: '' @
                                                         str_json ev (error ichancy_result)))))
                                     else
                                       await (call_ichancy ev
                                                (ExtGetPlayerBalance (the (ichancy_username user))))
                                         (\<lambda>balance_result.
                                           await (read_balance balance_result) (\<lambda>b.
                                             return_value (Inr b))))
                               else return_value (Inr JNull))
                              (\<lambda>step1.
                                 case step1 of
                                   Inl early \<Rightarrow> return_value early
                                 | Inr ichancy_balance \<Rightarrow>
                                     (let new_balance = fadd (fops ev) (local_balance user) (t_amount txn) in
                                      await (UserRepository_update_balance (fops ev) (u_id user) new_balance
                                               (t_amount txn) 0) (\<lambda>_.
                                      await utcnow (\<lambda>now.
                                      await (TransactionRepository_update
                                               (txn\<lparr>balance_after := Some new_balance,
                                                    t_state := COMPLETED,
                                                    completed_at := Some now\<rparr>)) (\<lambda>_.
                                      return_value
                                        \<lparr>dr_success = True,
                                         dr_transaction_id = Some transaction_id,
                                         dr_message = ''Deposit completed successfully'',
                                         dr_new_balance = Some new_balance,
                                         dr_ichancy_balance = ichancy_balance,
                                         dr_error = None\<rparr>))))))
                           (\<lambda>e.
                              await (TransactionRepository_update_state transaction_id FAILED
                                       (Some (str_exn ev e))) (\<lambda>_.
                                return_value (deposit_failure (Some transaction_id)
                                                (str_exn ev e))))))))"

definition withdrawal_failure :: "string \<Rightarrow> string \<Rightarrow> WithdrawalResult" where
  "withdrawal_failure tid err =
     \<lparr>wr_success = False, wr_transaction_id = Some tid, wr_message = [],
      wr_new_balance = None, wr_error = Some err\<rparr>"

text \<open>
  \<open>initiate_withdrawal\<close>. The user and balance checks and the creation of the
  transaction come before the \<open>try\<close>; an exception they raise reaches the caller.
\<close>

definition initiate_withdrawal ::
  "env \<Rightarrow> int \<Rightarrow> real \<Rightarrow> PaymentProvider \<Rightarrow> string \<Rightarrow> bool \<Rightarrow> string option \<Rightarrow>
   WithdrawalResult action" where
  "initiate_withdrawal ev user_id amount prov phone withdraw_from_ichancy key =
     await (UserRepository_get_by_id user_id) (\<lambda>found.
       case found of
         None \<Rightarrow> raise_exn (UserNotFoundException user_id)
       | Some user \<Rightarrow>
           if u_state user = BLOCKED
           then raise_exn (UserBlockedException user_id (blocked_reason user))
           else if local_balance user < amount
           then raise_exn (InsufficientBalanceException user_id amount (local_balance user))
           else
             await (resolve_key ev ''wdr_'' user_id amount key) (\<lambda>key1.
             await (new_Transaction ev) (\<lambda>t0.
             await (TransactionRepository_create
                      (t0\<lparr>t_user_id := user_id, t_type := WITHDRAWAL, t_state := PENDING,
                          t_amount := amount, idempotency_key := Some key1,
                          balance_before := Some (local_balance user)\<rparr>)) (\<lambda>transaction.
               try_except
                 (await (TransactionRepository_update_state (t_id transaction) PROCESSING None) (\<lambda>_.
                  await
                    (if withdraw_from_ichancy \<and> linked user then
                       await (call_ichancy ev
                                (ExtWithdrawal (the (ichancy_username user)) amount))
                         (\<lambda>ichancy_result.
                           if \<not> success ichancy_result then
                             await (TransactionRepository_update_state (t_id transaction) FAILED
                                      (Some (''Ichancy withdrawal failed: '' @
                                             str_json ev (error ichancy_result))))
                               (\<lambda>_. return_value
                                      (Some (withdrawal_failure (t_id transaction)
                                               (''Ichancy withdrawal failed: '' @
                                                str_json ev (error ichancy_result)))))
                           else return_value None)
                     else return_value None)
                    (\<lambda>step1.
                       case step1 of
                         Some early \<Rightarrow> return_value early
                       | None \<Rightarrow>
                           (let new_balance = fsub (fops ev) (local_balance user) amount in
                            await (UserRepository_update_balance (fops ev) (u_id user) new_balance 0
                                     amount) (\<lambda>_.
                            await (new_Payment ev) (\<lambda>p0.
                            await (PaymentRepository_create
                                     (p0\<lparr>p_user_id := user_id,
                                         p_transaction_id := Some (t_id transaction),
                                         provider := prov, p_state := PAYMENT_PENDING,
                                         p_amount := amount, phone_number := Some phone\<rparr>)) (\<lambda>_.
                            await utcnow (\<lambda>now.
                            await (TransactionRepository_update
                                     (transaction\<lparr>balance_after := Some new_balance,
                                                  t_state := COMPLETED,
                                                  completed_at := Some now\<rparr>)) (\<lambda>_.
                            return_value
                              \<lparr>wr_success = True, wr_transaction_id = Some (t_id transaction),
                               wr_message = ''Withdrawal queued for processing'',
                               wr_new_balance = Some new_balance, wr_error = None\<rparr>)))))))))
                 (\<lambda>e.
                    await (TransactionRepository_update_state (t_id transaction) FAILED
                             (Some (str_exn ev e))) (\<lambda>_.
                      return_value (withdrawal_failure (t_id transaction) (str_exn ev e))))))))"

section \<open>Example data\<close>

text \<open>
  A small ledger used to run the definitions: an account without external linkage, a
  linked account with a balance of 50,000 and a blocked account; two pending deposits with
  verified payments and one withdrawal that is being processed.
\<close>

definition demo_users :: "User list" where
  "demo_users =
     [\<lparr>u_id = 1, telegram_username = Some ''alice'', ichancy_username = None,
       ichancy_password = None, ichancy_registered = False, u_state = ACTIVE,
       local_balance = 0, total_deposited = 0, total_withdrawn = 0,
       u_created_at = 10, u_updated_at = 10, blocked_reason = None\<rparr>,
      \<lparr>u_id = 2, telegram_username = Some ''bob'', ichancy_username = Some ''player2'',
       ichancy_password = Some ''pw'', ichancy_registered = True, u_state = ACTIVE,
       local_balance = 50000, total_deposited = 60000, total_withdrawn = 10000,
       u_created_at = 20, u_updated_at = 20, blocked_reason = None\<rparr>,
      \<lparr>u_id = 3, telegram_username = None, ichancy_username = None,
       ichancy_password = None, ichancy_registered = False, u_state = BLOCKED,
       local_balance = 20000, total_deposited = 20000, total_withdrawn = 0,
       u_created_at = 30, u_updated_at = 30, blocked_reason = Some ''fraud''\<rparr>]"

definition demo_transactions :: "Transaction list" where
  "demo_transactions =
     [\<lparr>t_id = ''t1'', t_user_id = 1, t_type = DEPOSIT, t_state = PENDING, t_amount = 10000,
       currency = ''SYP'', idempotency_key = Some ''k1'', payment_reference = None,
       ichancy_reference = None, processing_started_at = None, completed_at = None,
       error_message = None, retry_count = 0, t_created_at = 100, t_updated_at = 100,
       balance_before = Some 0, balance_after = None\<rparr>,
      \<lparr>t_id = ''t2'', t_user_id = 2, t_type = DEPOSIT, t_state = PENDING, t_amount = 5000,
       currency = ''SYP'', idempotency_key = Some ''k2'', payment_reference = None,
       ichancy_reference = None, processing_started_at = None, completed_at = None,
       error_message = None, retry_count = 0, t_created_at = 200, t_updated_at = 200,
       balance_before = Some 50000, balance_after = None\<rparr>,
      \<lparr>t_id = ''t3'', t_user_id = 2, t_type = WITHDRAWAL, t_state = PROCESSING, t_amount = 100,
       currency = ''SYP'', idempotency_key = Some ''k3'', payment_reference = None,
       ichancy_reference = None, processing_started_at = Some 300, completed_at = None,
       error_message = None, retry_count = 0, t_created_at = 300, t_updated_at = 300,
       balance_before = Some 50000, balance_after = None\<rparr>]"

definition demo_payments :: "Payment list" where
  "demo_payments =
     [\<lparr>p_id = ''p1'', p_user_id = 1, p_transaction_id = Some ''t1'', provider = SYRIATEL_CASH,
       p_state = VERIFIED, p_amount = 10000, provider_reference = Some ''0x01'',
       phone_number = None, verified_at = Some 150, verification_attempts = 1,
       p_created_at = 100, expires_at = Some 1900\<rparr>,
      \<lparr>p_id = ''p2'', p_user_id = 2, p_transaction_id = Some ''t2'', provider = SHAM_CASH,
       p_state = VERIFIED, p_amount = 5000, provider_reference = Some ''0x01'',
       phone_number = None, verified_at = Some 250, verification_attempts = 1,
       p_created_at = 200, expires_at = Some 2000\<rparr>]"

definition demo_world :: world where
  "demo_world =
     \<lparr>db = \<lparr>users = demo_users, transactions = demo_transactions, payments = demo_payments\<rparr>,
      w_clock = 1000, uuids_used = 0, ext_calls = []\<rparr>"

text \<open>
  The same ledger with a second pending deposit of account 1, requested like the first
  while the balance of the account was 0, and its verified payment.
\<close>

definition demo_second_deposit :: Transaction where
  "demo_second_deposit =
     \<lparr>t_id = ''t4'', t_user_id = 1, t_type = DEPOSIT, t_state = PENDING, t_amount = 10000,
      currency = ''SYP'', idempotency_key = Some ''k4'', payment_reference = None,
      ichancy_reference = None, processing_started_at = None, completed_at = None,
      error_message = None, retry_count = 0, t_created_at = 110, t_updated_at = 110,
      balance_before = Some 0, balance_after = None\<rparr>"

definition demo_second_payment :: Payment where
  "demo_second_payment =
     \<lparr>p_id = ''p4'', p_user_id = 1, p_transaction_id = Some ''t4'', provider = SYRIATEL_CASH,
      p_state = VERIFIED, p_amount = 10000, provider_reference = Some ''0x04'',
      phone_number = None, verified_at = Some 160, verification_attempts = 1,
      p_created_at = 110, expires_at = Some 1910\<rparr>"

definition demo_world_two_deposits :: world where
  "demo_world_two_deposits =
     \<lparr>db = \<lparr>users = demo_users, transactions = demo_transactions @ [demo_second_deposit],
            payments = demo_payments @ [demo_second_payment]\<rparr>,
      w_clock = 1000, uuids_used = 0, ext_calls = []\<rparr>"

text \<open>
  The arithmetic of the examples. Their amounts and delays are whole numbers far below
  \<open>2^53\<close>, on which the operations on doubles are exact.
\<close>

definition demo_floats :: float_ops where
  "demo_floats = \<lparr>fadd = (\<lambda>x y. x + y), fsub = (\<lambda>x y. x - y), fmul = (\<lambda>x y. x * y)\<rparr>"

text \<open>
  Two environments. In the first the external wallet answers every call with a logical
  failure; in the second every call ends in the timeout the retry executor re-raises.
\<close>

definition demo_failure_response :: IchancyResponse where
  "demo_failure_response =
     \<lparr>success = False,
      data = JObj [(''hasError'', JStr ''yes''), (''msg'', JStr ''agent balance too low'')],
      error = JStr ''agent balance too low'',
      raw_response = JObj [(''hasError'', JStr ''yes''), (''msg'', JStr ''agent balance too low'')]\<rparr>"

definition demo_str_json :: "json \<Rightarrow> string" where
  "demo_str_json j = (case j of JStr s \<Rightarrow> s | _ \<Rightarrow> ''None'')"

definition demo_env_failing :: env where
  "demo_env_failing =
     \<lparr>uuid4 = (\<lambda>k. ''u'' @ replicate k (CHR ''x'')),
      ichancy = (\<lambda>c k. (Returned demo_failure_response, 1)),
      str_float = (\<lambda>x. ''amount''),
      str_json = demo_str_json,
      str_exn = (\<lambda>e. ''error''),
      fops = demo_floats\<rparr>"

definition demo_env_timeout :: env where
  "demo_env_timeout =
     \<lparr>uuid4 = (\<lambda>k. ''u'' @ replicate k (CHR ''x'')),
      ichancy = (\<lambda>c k. (Raised (APITimeoutException ''ichancy'' 15), 105)),
      str_float = (\<lambda>x. ''amount''),
      str_json = demo_str_json,
      str_exn = (\<lambda>e. ''error''),
      fops = demo_floats\<rparr>"

text \<open>Responses of the external service as \<open>requests\<close> delivers them.\<close>

definition demo_html_response :: http_response where
  "demo_html_response =
     \<lparr>status_code = 200, resp_text = ''<html>Bad Gateway</html>'', parsed_json = None\<rparr>"

definition demo_error_response :: http_response where
  "demo_error_response =
     \<lparr>status_code = 200, resp_text = ''(a JSON object)'',
      parsed_json = Some (JObj [(''hasError'', JStr ''yes''), (''msg'', JStr ''no such player'')])\<rparr>"

text \<open>
  Breakers and retry runs. The defaults of the configuration are those of \<open>config.py\<close>.
  \<open>demo_open_breaker\<close> opened at instant 100 with a recovery timeout of 60 seconds;
  \<open>demo_half_open_breaker\<close> allows a single trial call.
\<close>

definition demo_config :: Config where
  "demo_config = \<lparr>MAX_RETRIES = 3, RETRY_DELAY = 1, RETRY_BACKOFF = 2\<rparr>"

definition demo_closed_breaker :: CircuitBreaker where
  "demo_closed_breaker = new_breaker ''ichancy'' 2 60 3"

definition demo_open_breaker :: CircuitBreaker where
  "demo_open_breaker =
     (new_breaker ''ichancy'' 5 60 3)
       \<lparr>cb_state := OPEN, cb_failure_count := 5, cb_last_failure_time := Some 100\<rparr>"

definition demo_half_open_breaker :: CircuitBreaker where
  "demo_half_open_breaker =
     (new_breaker ''ichancy'' 5 60 1)
       \<lparr>cb_state := HALF_OPEN, cb_failure_count := 5, cb_last_failure_time := Some 100\<rparr>"

definition demo_rstate :: "CircuitBreaker option \<Rightarrow> datetime \<Rightarrow> rstate" where
  "demo_rstate cb t = \<lparr>breaker = cb, clock = t, invocations = 0, sleeps = [], retry_log = []\<rparr>"



definition demo_func_crashing :: "nat \<Rightarrow> string outcome \<times> real" where
  "demo_func_crashing k = (Raised (RuntimeError ''boom''), 1)"

section \<open>Verification\<close>

subsection \<open>Shared facts\<close>

lemmas action_defs = await_def return_value_def raise_exn_def try_except_def utcnow_def

lemmas demo_defs = demo_world_def demo_users_def demo_transactions_def demo_payments_def

lemma can_transition_to_table:
  "can_transition_to s n =
     ((s = PENDING \<and> (n = PROCESSING \<or> n = CANCELLED))
      \<or> (s = PROCESSING \<and> (n = COMPLETED \<or> n = FAILED \<or> n = PARTIALLY_FAILED))
      \<or> (s = COMPLETED \<and> n = REVERSED)
      \<or> (s = FAILED \<and> n = PENDING))"
  by (cases s) (auto simp: can_transition_to_def)

lemma update_state_rejected:
  "find (\<lambda>t. t_id t = tid) (transactions (db w)) = Some txn \<Longrightarrow>
   \<not> can_transition_to (t_state txn) new_state \<Longrightarrow>
   TransactionRepository_update_state tid new_state msg w = (Returned False, w)"
  by (simp add: TransactionRepository_update_state_def TransactionRepository_get_by_id_def
        action_defs)

lemma initiate_deposit_duplicate:
  "find (\<lambda>u. u_id u = uid) (users (db w)) = Some user \<Longrightarrow> u_state user \<noteq> BLOCKED \<Longrightarrow>
   k \<noteq> [] \<Longrightarrow>
   find (\<lambda>t. idempotency_key t = Some k) (transactions (db w)) = Some ex \<Longrightarrow>
   initiate_deposit ev uid amount prov (Some k) w =
     (Raised (DuplicateTransactionException k (t_id ex)), w\<lparr>uuids_used := Suc (uuids_used w)\<rparr>)"
  by (simp add: initiate_deposit_def UserRepository_get_by_id_def resolve_key_def
        new_Transaction_def draw_uuid4_def TransactionRepository_create_def
        TransactionRepository_get_by_idempotency_key_def action_defs)

lemma withdrawal_insufficient:
  "find (\<lambda>u. u_id u = uid) (users (db w)) = Some user \<Longrightarrow> u_state user \<noteq> BLOCKED \<Longrightarrow>
   local_balance user < amount \<Longrightarrow>
   initiate_withdrawal ev uid amount prov phone wfi key w =
     (Raised (InsufficientBalanceException uid amount (local_balance user)), w)"
  by (simp add: initiate_withdrawal_def UserRepository_get_by_id_def action_defs)

lemma withdrawal_blocked:
  "find (\<lambda>u. u_id u = uid) (users (db w)) = Some user \<Longrightarrow> u_state user = BLOCKED \<Longrightarrow>
   initiate_withdrawal ev uid amount prov phone wfi key w =
     (Raised (UserBlockedException uid (blocked_reason user)), w)"
  by (simp add: initiate_withdrawal_def UserRepository_get_by_id_def action_defs)

subsection \<open>Facts about the repositories and the workflows\<close>

lemma find_map_update:
  "(\<And>r. key (f r) = key r) \<Longrightarrow>
   find (\<lambda>t. key t = k) (map (\<lambda>r. if key r = tid then f r else r) xs) =
     (if k = tid then map_option f (find (\<lambda>t. key t = k) xs) else find (\<lambda>t. key t = k) xs)"
  by (induction xs) auto

lemma find_key_Some: "find (\<lambda>t. key t = k) xs = Some x \<Longrightarrow> key x = k"
  by (induction xs) (auto split: if_splits)

lemma state_updates_fields [simp]:
  "t_id (state_updates ns now msg r) = t_id r"
  "t_state (state_updates ns now msg r) = ns"
  "error_message (state_updates ns now msg r) = msg"
  "t_amount (state_updates ns now msg r) = t_amount r"
  "t_user_id (state_updates ns now msg r) = t_user_id r"
  "balance_before (state_updates ns now msg r) = balance_before r"
  "balance_after (state_updates ns now msg r) = balance_after r"
  "idempotency_key (state_updates ns now msg r) = idempotency_key r"
  by (simp_all add: state_updates_def Let_def)

lemma full_updates_fields [simp]:
  "t_id (full_updates txn r) = t_id r"
  "t_state (full_updates txn r) = t_state txn"
  "t_amount (full_updates txn r) = t_amount txn"
  "balance_before (full_updates txn r) = balance_before txn"
  "balance_after (full_updates txn r) = balance_after txn"
  "error_message (full_updates txn r) = error_message txn"
  by (simp_all add: full_updates_def)

lemma update_transaction_row_world [simp]:
  "fst (update_transaction_row tid f w) = Returned ()"
  "users (db (snd (update_transaction_row tid f w))) = users (db w)"
  "payments (db (snd (update_transaction_row tid f w))) = payments (db w)"
  "transactions (db (snd (update_transaction_row tid f w))) =
     map (\<lambda>r. if t_id r = tid then f r else r) (transactions (db w))"
  "ext_calls (snd (update_transaction_row tid f w)) = ext_calls w"
  "w_clock (snd (update_transaction_row tid f w)) = w_clock w"
  "uuids_used (snd (update_transaction_row tid f w)) = uuids_used w"
  by (simp_all add: update_transaction_row_def)

lemma update_state_accepted:
  "find (\<lambda>t. t_id t = tid) (transactions (db w)) = Some txn \<Longrightarrow>
   can_transition_to (t_state txn) ns \<Longrightarrow>
   TransactionRepository_update_state tid ns msg w =
     (Returned True, snd (update_transaction_row tid (state_updates ns (w_clock w) msg) w))"
  by (simp add: TransactionRepository_update_state_def TransactionRepository_get_by_id_def
        action_defs update_transaction_row_def)

lemma update_balance_world [simp]:
  "fst (UserRepository_update_balance fl uid nb dd wd w) = Returned True"
  "transactions (db (snd (UserRepository_update_balance fl uid nb dd wd w))) = transactions (db w)"
  "payments (db (snd (UserRepository_update_balance fl uid nb dd wd w))) = payments (db w)"
  "ext_calls (snd (UserRepository_update_balance fl uid nb dd wd w)) = ext_calls w"
  "w_clock (snd (UserRepository_update_balance fl uid nb dd wd w)) = w_clock w"
  "uuids_used (snd (UserRepository_update_balance fl uid nb dd wd w)) = uuids_used w"
  by (simp_all add: UserRepository_update_balance_def)

lemma update_balance_find:
  "find (\<lambda>u. u_id u = uid) (users (db w)) = Some user \<Longrightarrow>
   find (\<lambda>u. u_id u = uid) (users (db (snd (UserRepository_update_balance fl uid nb dd wd w)))) =
     Some (user\<lparr>local_balance := nb, total_deposited := fadd fl (total_deposited user) dd,
                 total_withdrawn := fadd fl (total_withdrawn user) wd,
                 u_updated_at := w_clock w\<rparr>)"
  by (simp add: UserRepository_update_balance_def find_map_update)

lemma update_world:
  "TransactionRepository_update txn w =
     (Returned (txn\<lparr>t_updated_at := w_clock w\<rparr>),
      snd (update_transaction_row (t_id txn) (full_updates (txn\<lparr>t_updated_at := w_clock w\<rparr>)) w))"
  by (simp add: TransactionRepository_update_def action_defs Let_def update_transaction_row_def)

lemma complete_deposit_unlinked:
  assumes t: "find (\<lambda>t. t_id t = tid) (transactions (db w)) = Some txn"
    and ts: "t_state txn = PENDING"
    and p: "find (\<lambda>p. p_transaction_id p = Some tid) (payments (db w)) = Some pay"
    and ps: "p_state pay = VERIFIED"
    and u: "find (\<lambda>u. u_id u = t_user_id txn) (users (db w)) = Some user"
    and l: "\<not> linked user"
  shows "complete_deposit ev tid dti w =
     (Returned \<lparr>dr_success = True, dr_transaction_id = Some tid,
                dr_message = ''Deposit completed successfully'',
                dr_new_balance = Some (fadd (fops ev) (local_balance user) (t_amount txn)),
                dr_ichancy_balance = JNull, dr_error = None\<rparr>,
      snd (update_transaction_row tid
             (full_updates
                (txn\<lparr>balance_after := Some (fadd (fops ev) (local_balance user) (t_amount txn)),
                     t_state := COMPLETED, completed_at := Some (w_clock w),
                     t_updated_at := w_clock w\<rparr>))
             (snd (UserRepository_update_balance (fops ev) (t_user_id txn)
                     (fadd (fops ev) (local_balance user) (t_amount txn)) (t_amount txn) 0
                     (snd (update_transaction_row tid
                             (state_updates PROCESSING (w_clock w) None) w))))))"
proof -
  have c1: "can_transition_to (t_state txn) PROCESSING"
    by (simp add: ts can_transition_to_def)
  have s1: "TransactionRepository_update_state tid PROCESSING None w =
     (Returned True, snd (update_transaction_row tid (state_updates PROCESSING (w_clock w) None) w))"
    by (rule update_state_accepted [OF t c1])
  have i: "u_id user = t_user_id txn" "t_id txn = tid"
    using find_key_Some [OF u] find_key_Some [OF t] by simp_all
  show ?thesis
    using t ts p ps u l s1 i
    by (simp add: complete_deposit_def TransactionRepository_get_by_id_def
          get_transaction_payment_def UserRepository_get_by_id_def action_defs Let_def
          update_world update_transaction_row_def UserRepository_update_balance_def)
qed

lemma complete_deposit_external_failure:
  assumes t: "find (\<lambda>t. t_id t = tid) (transactions (db w)) = Some txn"
    and ts: "t_state txn = PENDING"
    and p: "find (\<lambda>p. p_transaction_id p = Some tid) (payments (db w)) = Some pay"
    and ps: "p_state pay = VERIFIED"
    and u: "find (\<lambda>u. u_id u = t_user_id txn) (users (db w)) = Some user"
    and l: "linked user"
    and x: "ichancy ev (ExtDeposit (the (ichancy_username user)) (t_amount txn))
              (length (ext_calls w)) = (Returned r, d)"
    and f: "\<not> success r"
  shows "complete_deposit ev tid True w =
     (Returned (deposit_failure (Some tid) (''Ichancy deposit failed: '' @ str_json ev (error r))),
      w\<lparr>db := (db w)\<lparr>transactions :=
             map (\<lambda>row. if t_id row = tid
                        then state_updates PARTIALLY_FAILED (w_clock w + d)
                               (Some (''Ichancy deposit failed: '' @ str_json ev (error r)))
                               (state_updates PROCESSING (w_clock w) None row)
                        else row)
                 (transactions (db w))\<rparr>,
         ext_calls := ext_calls w @ [ExtDeposit (the (ichancy_username user)) (t_amount txn)],
         w_clock := w_clock w + d\<rparr>)"
proof -
  have c1: "can_transition_to (t_state txn) PROCESSING"
    by (simp add: ts can_transition_to_def)
  define w1 where "w1 = snd (update_transaction_row tid (state_updates PROCESSING (w_clock w) None) w)"
  have s1: "TransactionRepository_update_state tid PROCESSING None w = (Returned True, w1)"
    unfolding w1_def by (rule update_state_accepted [OF t c1])
  define w2 where "w2 = w1\<lparr>ext_calls := ext_calls w1 @ [ExtDeposit (the (ichancy_username user)) (t_amount txn)],
       w_clock := w_clock w1 + d\<rparr>"
  have s2: "call_ichancy ev (ExtDeposit (the (ichancy_username user)) (t_amount txn)) w1 = (Returned r, w2)"
    using x by (simp add: call_ichancy_def w2_def w1_def)
  have t2: "find (\<lambda>t. t_id t = tid) (transactions (db w2)) =
              Some (state_updates PROCESSING (w_clock w) None txn)"
    using t by (simp add: w2_def w1_def find_map_update)
  have c2: "can_transition_to (t_state (state_updates PROCESSING (w_clock w) None txn)) PARTIALLY_FAILED"
    by (simp add: can_transition_to_def)
  have s3: "TransactionRepository_update_state tid PARTIALLY_FAILED msg w2 =
     (Returned True, snd (update_transaction_row tid (state_updates PARTIALLY_FAILED (w_clock w2) msg) w2))"
    for msg
    by (rule update_state_accepted [OF t2 c2])
  have "complete_deposit ev tid True w =
     (Returned (deposit_failure (Some tid) (''Ichancy deposit failed: '' @ str_json ev (error r))),
      snd (update_transaction_row tid (state_updates PARTIALLY_FAILED (w_clock w2)
             (Some (''Ichancy deposit failed: '' @ str_json ev (error r)))) w2))"
    using t ts p ps u l f s1 s2 s3
    by (simp add: complete_deposit_def TransactionRepository_get_by_id_def
          get_transaction_payment_def UserRepository_get_by_id_def action_defs)
  also have "snd (update_transaction_row tid (state_updates PARTIALLY_FAILED (w_clock w2)
             (Some (''Ichancy deposit failed: '' @ str_json ev (error r)))) w2) =
      w\<lparr>db := (db w)\<lparr>transactions :=
             map (\<lambda>row. if t_id row = tid
                        then state_updates PARTIALLY_FAILED (w_clock w + d)
                               (Some (''Ichancy deposit failed: '' @ str_json ev (error r)))
                               (state_updates PROCESSING (w_clock w) None row)
                        else row)
                 (transactions (db w))\<rparr>,
         ext_calls := ext_calls w @ [ExtDeposit (the (ichancy_username user)) (t_amount txn)],
         w_clock := w_clock w + d\<rparr>"
    by (simp add: update_transaction_row_def w2_def w1_def comp_def cong: if_cong)
  finally show ?thesis .
qed

lemma find_none_if_no_row:
  "\<not> list_ex P xs \<Longrightarrow> find P xs = None"
  by (induction xs) auto

lemma find_append_fresh:
  "find P xs = None \<Longrightarrow> P x \<Longrightarrow> find P (xs @ [x]) = Some x"
  by (induction xs) (auto split: if_splits)

lemma create_fresh:
  assumes "\<not> list_ex (\<lambda>r. t_id r = t_id txn \<or> idempotency_key r = Some k) (transactions (db w))"
    and "idempotency_key txn = Some k"
  shows "TransactionRepository_create txn w =
     (Returned txn,
      w\<lparr>db := (db w)\<lparr>transactions := transactions (db w) @
           [txn\<lparr>processing_started_at := None, completed_at := None,
                error_message := None, retry_count := 0\<rparr>]\<rparr>\<rparr>)"
proof -
  have n: "find (\<lambda>t. idempotency_key t = Some k) (transactions (db w)) = None"
    using assms(1) by (intro find_none_if_no_row) (auto simp: list_ex_iff)
  have i: "\<not> list_ex (\<lambda>r. t_id r = t_id txn
                    \<or> (idempotency_key txn \<noteq> None \<and> idempotency_key r = idempotency_key txn))
           (transactions (db w))"
    using assms by (auto simp: list_ex_iff)
  show ?thesis
    using n i assms(2)
    by (cases "k = []")
       (simp_all add: TransactionRepository_create_def
          TransactionRepository_get_by_idempotency_key_def insert_transaction_def action_defs)
qed

lemma initiate_withdrawal_external_failure:
  assumes u: "find (\<lambda>u. u_id u = uid) (users (db w)) = Some user"
    and nb: "u_state user \<noteq> BLOCKED"
    and bal: "\<not> local_balance user < amount"
    and l: "linked user"
    and k: "resolve_key ev ''wdr_'' uid amount key w = (Returned key1, w0)"
    and fresh: "\<not> list_ex (\<lambda>r. t_id r = uuid4 ev (uuids_used w0) \<or> idempotency_key r = Some key1)
                   (transactions (db w))"
    and x: "ichancy ev (ExtWithdrawal (the (ichancy_username user)) amount)
              (length (ext_calls w)) = (res, d)"
    and f: "case res of Returned r \<Rightarrow> \<not> success r | Raised e \<Rightarrow> True"
  shows "\<exists>w'. initiate_withdrawal ev uid amount prov phone True key w =
           (Returned (withdrawal_failure (uuid4 ev (uuids_used w0))
                        (case res of
                           Returned r \<Rightarrow> ''Ichancy withdrawal failed: '' @ str_json ev (error r)
                         | Raised e \<Rightarrow> str_exn ev e)), w')
         \<and> map_option t_state (find (\<lambda>t. t_id t = uuid4 ev (uuids_used w0)) (transactions (db w')))
             = Some FAILED
         \<and> map_option error_message
              (find (\<lambda>t. t_id t = uuid4 ev (uuids_used w0)) (transactions (db w')))
             = Some (Some (case res of
                             Returned r \<Rightarrow> ''Ichancy withdrawal failed: '' @ str_json ev (error r)
                           | Raised e \<Rightarrow> str_exn ev e))
         \<and> users (db w') = users (db w)
         \<and> payments (db w') = payments (db w)
         \<and> ext_calls w' = ext_calls w @ [ExtWithdrawal (the (ichancy_username user)) amount]"
proof -
  define nid where "nid = uuid4 ev (uuids_used w0)"
  have w0: "db w0 = db w" "ext_calls w0 = ext_calls w" "w_clock w0 = w_clock w"
    using k by (auto simp: resolve_key_def draw_hex8_def draw_uuid4_def action_defs
                     split: if_splits)
  define txn where "txn =
     \<lparr>t_id = nid, t_user_id = uid, t_type = WITHDRAWAL, t_state = PENDING, t_amount = amount,
      currency = ''SYP'', idempotency_key = Some key1, payment_reference = None,
      ichancy_reference = None, processing_started_at = None, completed_at = None,
      error_message = None, retry_count = 0, t_created_at = w_clock w, t_updated_at = w_clock w,
      balance_before = Some (local_balance user), balance_after = None\<rparr>"
  define w1 where "w1 = w0\<lparr>uuids_used := Suc (uuids_used w0)\<rparr>"
  have nt: "new_Transaction ev w0 =
     (Returned (txn\<lparr>t_user_id := 0, t_type := DEPOSIT, t_amount := 0, idempotency_key := None,
                    balance_before := None\<rparr>), w1)"
    by (simp add: new_Transaction_def draw_uuid4_def action_defs txn_def nid_def w1_def w0)
  have fr: "\<not> list_ex (\<lambda>r. t_id r = t_id txn \<or> idempotency_key r = Some key1) (transactions (db w1))"
    using fresh by (simp add: txn_def nid_def w1_def w0)
  define w2 where "w2 = w1\<lparr>db := (db w1)\<lparr>transactions := transactions (db w1) @ [txn]\<rparr>\<rparr>"
  have cr: "TransactionRepository_create txn w1 = (Returned txn, w2)"
    using create_fresh [OF fr, of ] by (simp add: txn_def w2_def)
  have nf: "find (\<lambda>t. t_id t = nid) (transactions (db w1)) = None"
    using fr by (intro find_none_if_no_row) (auto simp: list_ex_iff txn_def)
  have f2: "find (\<lambda>t. t_id t = nid) (transactions (db w2)) = Some txn"
    unfolding w2_def using find_append_fresh [OF nf, of txn] by (simp add: txn_def)
  have c1: "can_transition_to (t_state txn) PROCESSING"
    by (simp add: txn_def can_transition_to_def)
  define w3 where "w3 = snd (update_transaction_row nid (state_updates PROCESSING (w_clock w) None) w2)"
  have s1: "TransactionRepository_update_state nid PROCESSING None w2 = (Returned True, w3)"
    using update_state_accepted [OF f2 c1, of None] by (simp add: w3_def w2_def w1_def w0)
  define w4 where "w4 = w3\<lparr>ext_calls := ext_calls w3 @ [ExtWithdrawal (the (ichancy_username user)) amount],
       w_clock := w_clock w3 + d\<rparr>"
  have s2: "call_ichancy ev (ExtWithdrawal (the (ichancy_username user)) amount) w3 = (res, w4)"
    using x by (simp add: call_ichancy_def w4_def w3_def w2_def w1_def w0)
  have f4: "find (\<lambda>t. t_id t = nid) (transactions (db w4)) =
              Some (state_updates PROCESSING (w_clock w) None txn)"
    using f2 by (simp add: w4_def w3_def find_map_update)
  have c2: "can_transition_to (t_state (state_updates PROCESSING (w_clock w) None txn)) FAILED"
    by (simp add: can_transition_to_def)
  have s3: "TransactionRepository_update_state nid FAILED msg w4 =
     (Returned True, snd (update_transaction_row nid (state_updates FAILED (w_clock w4) msg) w4))"
    for msg
    by (rule update_state_accepted [OF f4 c2])
  define m where "m = (case res of
       Returned r \<Rightarrow> ''Ichancy withdrawal failed: '' @ str_json ev (error r)
     | Raised e \<Rightarrow> str_exn ev e)"
  define w5 where "w5 = snd (update_transaction_row nid (state_updates FAILED (w_clock w4) (Some m)) w4)"
  have "initiate_withdrawal ev uid amount prov phone True key w =
          (Returned (withdrawal_failure nid m), w5)"
  proof (cases res)
    case (Returned r)
    with f have "\<not> success r" by simp
    with u nb bal l k nt cr s1 s2 s3 Returned show ?thesis
      by (simp add: initiate_withdrawal_def UserRepository_get_by_id_def action_defs txn_def
            m_def w5_def)
  next
    case (Raised e)
    with u nb bal l k nt cr s1 s2 s3 show ?thesis
      by (simp add: initiate_withdrawal_def UserRepository_get_by_id_def action_defs txn_def
            m_def w5_def)
  qed
  moreover have "map_option t_state (find (\<lambda>t. t_id t = nid) (transactions (db w5))) = Some FAILED"
    "map_option error_message (find (\<lambda>t. t_id t = nid) (transactions (db w5))) = Some (Some m)"
    using f4 by (simp_all add: w5_def find_map_update)
  moreover have "users (db w5) = users (db w)" "payments (db w5) = payments (db w)"
    "ext_calls w5 = ext_calls w @ [ExtWithdrawal (the (ichancy_username user)) amount]"
    by (simp_all add: w5_def w4_def w3_def w2_def w1_def w0)
  ultimately show ?thesis unfolding nid_def m_def by blast
qed

subsection \<open>Facts about the breaker and the retry loop\<close>

lemma record_failure_fields [simp]:
  "name (record_failure t cb) = name cb"
  "failure_threshold (record_failure t cb) = failure_threshold cb"
  "recovery_timeout (record_failure t cb) = recovery_timeout cb"
  "half_open_max_calls (record_failure t cb) = half_open_max_calls cb"
  "cb_failure_count (record_failure t cb) = cb_failure_count cb + 1"
  "cb_last_failure_time (record_failure t cb) = Some t"
  "cb_half_open_calls (record_failure t cb) = cb_half_open_calls cb"
  by (simp_all add: record_failure_def Let_def)

lemma record_failure_state:
  "cb_state (record_failure t cb) =
     (if cb_state cb = CLOSED \<and> cb_failure_count cb + 1 < failure_threshold cb then CLOSED else OPEN)"
  by (cases "cb_state cb") (simp_all add: record_failure_def Let_def)




lemma record_failures_count:
  "cb_failure_count (record_failures ts cb) = cb_failure_count cb + int (length ts)"
  by (induction ts arbitrary: cb) auto



lemma check_breaker_open_within:
  "breaker s = Some cb \<Longrightarrow> cb_state cb = OPEN \<Longrightarrow> cb_last_failure_time cb = Some t \<Longrightarrow>
   clock s - t < recovery_timeout cb \<Longrightarrow>
   check_breaker s =
     (Some (NetworkException (''Service '' @ name cb @ '' unavailable (circuit breaker open)'')
              [(''circuit_state'', ''open'')]), s)"
  by (simp add: check_breaker_def can_execute_def state_def Let_def)



lemma sleep_fields [simp]:
  "invocations (sleep d s) = invocations s"
  "sleeps (sleep d s) = sleeps s @ [d]"
  "breaker (sleep d s) = breaker s"
  by (simp_all add: sleep_def)




lemma record_successes_end:
  "record_successes (Suc n) cb = record_success (record_successes n cb)"
  by (induction n arbitrary: cb) simp_all

lemma record_successes_half_open:
  "cb_state cb = HALF_OPEN \<Longrightarrow> cb_half_open_calls cb + int k < half_open_max_calls cb \<Longrightarrow>
   cb_state (record_successes k cb) = HALF_OPEN
   \<and> cb_half_open_calls (record_successes k cb) = cb_half_open_calls cb + int k
   \<and> half_open_max_calls (record_successes k cb) = half_open_max_calls cb"
proof (induction k)
  case 0
  then show ?case by simp
next
  case (Suc k)
  then have "cb_state (record_successes k cb) = HALF_OPEN"
    "cb_half_open_calls (record_successes k cb) = cb_half_open_calls cb + int k"
    "half_open_max_calls (record_successes k cb) = half_open_max_calls cb"
    by simp_all
  with Suc.prems show ?case
    by (simp add: record_successes_end record_success_def Let_def del: record_successes.simps)
qed

lemma record_successes_closes:
  assumes "cb_state cb = HALF_OPEN" and "cb_half_open_calls cb = 0"
    and "0 < half_open_max_calls cb" and "int n = half_open_max_calls cb"
  shows "cb_state (record_successes n cb) = CLOSED \<and> cb_failure_count (record_successes n cb) = 0"
proof -
  from assms obtain k where n: "n = Suc k" by (cases n) auto
  have "cb_half_open_calls cb + int k < half_open_max_calls cb"
    using assms n by simp
  from record_successes_half_open [OF assms(1) this] assms n
  show ?thesis
    by (simp add: record_successes_end record_success_def Let_def del: record_successes.simps)
qed

lemma can_execute_half_open:
  "cb_state cb = HALF_OPEN \<Longrightarrow> can_execute now cb = (True, cb)"
  by (simp add: can_execute_def state_def)










lemmas demo_breaker_defs = demo_closed_breaker_def demo_open_breaker_def
  demo_half_open_breaker_def new_breaker_def demo_rstate_def demo_config_def

lemma retry_async_resolved:
  "retry_async fl config func mr dl bo excs onr s =
   retry_async fl config func (Some (or_default mr (MAX_RETRIES config)))
     (Some (or_default dl (RETRY_DELAY config))) (Some (or_default bo (RETRY_BACKOFF config)))
     excs onr s"
  by (simp add: retry_async_def or_default_def)








lemma can_execute_open_elapsed:
  "cb_state cb = OPEN \<Longrightarrow> cb_last_failure_time cb = Some t \<Longrightarrow> recovery_timeout cb \<le> now - t \<Longrightarrow>
   can_execute now cb = (True, cb\<lparr>cb_state := HALF_OPEN, cb_half_open_calls := 0\<rparr>)"
  by (simp add: can_execute_def state_def Let_def)





subsection \<open>Deposit creation under an idempotency key that is already taken\<close>

text \<open>
  Claim C1: a deposit-creation request that supplies an idempotency key for which a
  transaction already exists returns that first transaction unchanged, creates no new
  transaction and re-executes no side effects. The service's own description says the
  same (\<open>WalletService\<close>: ``Idempotency - Same operation with same key returns same
  result''). The code does not return: in the example ledger the key \<open>k1\<close> belongs to
  transaction \<open>t1\<close> of account 1, and a deposit request of account 1 for the same
  amount under \<open>k1\<close> raises \<open>DuplicateTransactionException\<close>, which
  \<open>TransactionRepository.create\<close> raises and \<open>initiate_deposit\<close> does not catch. The
  database is as before and the external wallet is not called; one UUID has been drawn for
  the transaction object that is then discarded.
\<close>

theorem initiate_deposit_duplicate_key_raises:
  "find (\<lambda>t. idempotency_key t = Some ''k1'') (transactions (db demo_world))
     = Some (demo_transactions ! 0)
   \<and> t_id (demo_transactions ! 0) = ''t1''
   \<and> t_user_id (demo_transactions ! 0) = 1
   \<and> t_amount (demo_transactions ! 0) = 10000
   \<and> initiate_deposit demo_env_failing 1 10000 SYRIATEL_CASH (Some ''k1'') demo_world
       = (Raised (DuplicateTransactionException ''k1'' ''t1''), demo_world\<lparr>uuids_used := 1\<rparr>)"
  by (simp add: initiate_deposit_def UserRepository_get_by_id_def resolve_key_def
        new_Transaction_def draw_uuid4_def TransactionRepository_create_def
        TransactionRepository_get_by_idempotency_key_def action_defs demo_defs
        demo_env_failing_def)

subsection \<open>Illegal state transitions\<close>

text \<open>
  Claim C2, as the specification states it, has an illegal transition fail with an
  invalid-state-transition error. \<open>update_state\<close> raises nothing: for the transaction
  \<open>t3\<close> of the example ledger, which is in PROCESSING, the request to move it to CANCELLED
  returns \<open>False\<close>, the very value it returns for an identifier that no transaction has.
\<close>

theorem update_state_processing_to_cancelled_returns_false:
  "fst (TransactionRepository_update_state ''t3'' CANCELLED None demo_world) = Returned False
   \<and> fst (TransactionRepository_update_state ''no such id'' CANCELLED None demo_world)
       = Returned False"
  by (simp add: TransactionRepository_update_state_def TransactionRepository_get_by_id_def
        action_defs demo_defs can_transition_to_def)

text \<open>
  Claim C2, amended. The legal transitions are exactly PENDING to PROCESSING or CANCELLED,
  PROCESSING to COMPLETED, FAILED or PARTIALLY_FAILED, COMPLETED to REVERSED and FAILED to
  PENDING. For every stored transaction and every requested state outside this table,
  \<open>update_state\<close> returns \<open>False\<close> and leaves the whole world, storage included, as it
  was. In particular a transaction in PROCESSING asked to become CANCELLED stays in
  PROCESSING.
\<close>

theorem update_state_rejects_illegal_transition:
  "(can_transition_to s n =
      ((s = PENDING \<and> (n = PROCESSING \<or> n = CANCELLED))
       \<or> (s = PROCESSING \<and> (n = COMPLETED \<or> n = FAILED \<or> n = PARTIALLY_FAILED))
       \<or> (s = COMPLETED \<and> n = REVERSED)
       \<or> (s = FAILED \<and> n = PENDING)))
   \<and> (find (\<lambda>t. t_id t = tid) (transactions (db w)) = Some txn \<and>
        \<not> can_transition_to (t_state txn) new_state \<longrightarrow>
        TransactionRepository_update_state tid new_state msg w = (Returned False, w))
   \<and> (find (\<lambda>t. t_id t = tid') (transactions (db w')) = Some txn' \<and>
        t_state txn' = PROCESSING \<longrightarrow>
        TransactionRepository_update_state tid' CANCELLED msg' w' = (Returned False, w') \<and>
        map_option t_state (find (\<lambda>t. t_id t = tid') (transactions (db w'))) = Some PROCESSING)"
  using can_transition_to_table [of s n] update_state_rejected [of tid w txn new_state msg]
    update_state_rejected [of tid' w' txn' CANCELLED msg']
  by (auto simp: can_transition_to_def)

theorem update_state_rejects_illegal_transition_witness:
  "find (\<lambda>t. t_id t = ''t3'') (transactions (db demo_world)) = Some (demo_transactions ! 2)
   \<and> t_state (demo_transactions ! 2) = PROCESSING
   \<and> \<not> can_transition_to (t_state (demo_transactions ! 2)) CANCELLED
   \<and> TransactionRepository_update_state ''t3'' CANCELLED None demo_world
       = (Returned False, demo_world)
   \<and> map_option t_state (find (\<lambda>t. t_id t = ''t3'') (transactions (db demo_world)))
       = Some PROCESSING"
proof -
  have f: "find (\<lambda>t. t_id t = ''t3'') (transactions (db demo_world)) = Some (demo_transactions ! 2)"
    by (simp add: demo_defs)
  have p: "t_state (demo_transactions ! 2) = PROCESSING"
    by (simp add: demo_defs)
  have n: "\<not> can_transition_to (t_state (demo_transactions ! 2)) CANCELLED"
    by (simp add: p can_transition_to_def)
  from update_state_rejects_illegal_transition
         [of PROCESSING CANCELLED "''t3''" demo_world "demo_transactions ! 2" CANCELLED None
             "''t3''" demo_world "demo_transactions ! 2" None]
       f p n
  show ?thesis by simp
qed

subsection \<open>Deposit completion when the external credit fails\<close>

text \<open>
  Claim C3. Take a deposit completion that reaches the external credit call: the
  transaction is PENDING, its payment is VERIFIED, the account exists and has an
  external-wallet linkage, and crediting the external wallet is enabled. If the credit
  call returns a logical failure, then \<open>complete_deposit\<close> returns a failure result whose
  error is the remote failure reason, the transaction is stored in state PARTIALLY_FAILED
  with this reason as its error message, and the users table, and so every local balance,
  is unchanged.
\<close>

theorem deposit_external_failure_partially_failed:
  assumes "find (\<lambda>t. t_id t = tid) (transactions (db w)) = Some txn"
    and "t_state txn = PENDING"
    and "find (\<lambda>p. p_transaction_id p = Some tid) (payments (db w)) = Some pay"
    and "p_state pay = VERIFIED"
    and "find (\<lambda>u. u_id u = t_user_id txn) (users (db w)) = Some user"
    and "linked user"
    and "ichancy ev (ExtDeposit (the (ichancy_username user)) (t_amount txn))
           (length (ext_calls w)) = (Returned r, d)"
    and "\<not> success r"
  shows "fst (complete_deposit ev tid True w) =
           Returned \<lparr>dr_success = False, dr_transaction_id = Some tid, dr_message = [],
                     dr_new_balance = None, dr_ichancy_balance = JNull,
                     dr_error = Some (''Ichancy deposit failed: '' @ str_json ev (error r))\<rparr>
         \<and> map_option t_state
              (find (\<lambda>t. t_id t = tid) (transactions (db (snd (complete_deposit ev tid True w)))))
             = Some PARTIALLY_FAILED
         \<and> map_option error_message
              (find (\<lambda>t. t_id t = tid) (transactions (db (snd (complete_deposit ev tid True w)))))
             = Some (Some (''Ichancy deposit failed: '' @ str_json ev (error r)))
         \<and> users (db (snd (complete_deposit ev tid True w))) = users (db w)"
  using complete_deposit_external_failure [OF assms] assms(1)
  by (simp add: deposit_failure_def find_map_update)

theorem deposit_external_failure_partially_failed_witness:
  "fst (complete_deposit demo_env_failing ''t2'' True demo_world) =
     Returned \<lparr>dr_success = False, dr_transaction_id = Some ''t2'', dr_message = [],
               dr_new_balance = None, dr_ichancy_balance = JNull,
               dr_error = Some ''Ichancy deposit failed: agent balance too low''\<rparr>
   \<and> map_option t_state
        (find (\<lambda>t. t_id t = ''t2'')
           (transactions (db (snd (complete_deposit demo_env_failing ''t2'' True demo_world)))))
       = Some PARTIALLY_FAILED
   \<and> map_option error_message
        (find (\<lambda>t. t_id t = ''t2'')
           (transactions (db (snd (complete_deposit demo_env_failing ''t2'' True demo_world)))))
       = Some (Some ''Ichancy deposit failed: agent balance too low'')
   \<and> map_option local_balance
        (find (\<lambda>u. u_id u = 2)
           (users (db (snd (complete_deposit demo_env_failing ''t2'' True demo_world)))))
       = Some 50000"
proof -
  have t: "find (\<lambda>t. t_id t = ''t2'') (transactions (db demo_world)) = Some (demo_transactions ! 1)"
    by (simp add: demo_defs)
  have ts: "t_state (demo_transactions ! 1) = PENDING"
    by (simp add: demo_defs)
  have p: "find (\<lambda>p. p_transaction_id p = Some ''t2'') (payments (db demo_world))
             = Some (demo_payments ! 1)"
    by (simp add: demo_defs)
  have ps: "p_state (demo_payments ! 1) = VERIFIED"
    by (simp add: demo_defs)
  have u: "find (\<lambda>u. u_id u = t_user_id (demo_transactions ! 1)) (users (db demo_world))
             = Some (demo_users ! 1)"
    by (simp add: demo_defs)
  have l: "linked (demo_users ! 1)"
    by (simp add: demo_defs linked_def)
  have x: "ichancy demo_env_failing
             (ExtDeposit (the (ichancy_username (demo_users ! 1))) (t_amount (demo_transactions ! 1)))
             (length (ext_calls demo_world)) = (Returned demo_failure_response, 1)"
    by (simp add: demo_env_failing_def)
  have f: "\<not> success demo_failure_response"
    by (simp add: demo_failure_response_def)
  have e: "str_json demo_env_failing (error demo_failure_response) = ''agent balance too low''"
    by (simp add: demo_env_failing_def demo_failure_response_def demo_str_json_def)
  have b: "map_option local_balance (find (\<lambda>u. u_id u = 2) (users (db demo_world))) = Some 50000"
    by (simp add: demo_defs)
  from deposit_external_failure_partially_failed [OF t ts p ps u l x f] e b
  show ?thesis by simp
qed

subsection \<open>Withdrawal when the external debit fails\<close>

text \<open>
  Claim C4. Take a withdrawal that reaches the external debit call: the account exists,
  is not blocked, covers the amount and has an external-wallet linkage, debiting the
  external wallet is enabled, and the new transaction can be stored (its fresh identifier
  and its idempotency key are not taken). If the debit call fails, by returning a logical
  failure or by raising once the retry executor gives up, then \<open>initiate_withdrawal\<close>
  returns a failure result for the new transaction, the transaction is stored in state
  FAILED (not PARTIALLY_FAILED) with the failure as its error message, the users table,
  and so every local balance, is unchanged, and the payments table is unchanged: no payment
  record for the payout is created.
\<close>

theorem withdrawal_external_failure_failed:
  assumes "find (\<lambda>u. u_id u = uid) (users (db w)) = Some user"
    and "u_state user \<noteq> BLOCKED"
    and "\<not> local_balance user < amount"
    and "linked user"
    and "resolve_key ev ''wdr_'' uid amount key w = (Returned key1, w0)"
    and "\<not> list_ex (\<lambda>r. t_id r = uuid4 ev (uuids_used w0) \<or> idempotency_key r = Some key1)
            (transactions (db w))"
    and "ichancy ev (ExtWithdrawal (the (ichancy_username user)) amount)
           (length (ext_calls w)) = (res, d)"
    and "case res of Returned r \<Rightarrow> \<not> success r | Raised e \<Rightarrow> True"
  shows "fst (initiate_withdrawal ev uid amount prov phone True key w) =
           Returned \<lparr>wr_success = False,
                     wr_transaction_id = Some (uuid4 ev (uuids_used w0)),
                     wr_message = [], wr_new_balance = None,
                     wr_error = Some (case res of
                                        Returned r \<Rightarrow>
                                          ''Ichancy withdrawal failed: '' @ str_json ev (error r)
                                      | Raised e \<Rightarrow> str_exn ev e)\<rparr>
         \<and> map_option t_state
              (find (\<lambda>t. t_id t = uuid4 ev (uuids_used w0))
                 (transactions (db (snd (initiate_withdrawal ev uid amount prov phone True key w)))))
             = Some FAILED
         \<and> map_option error_message
              (find (\<lambda>t. t_id t = uuid4 ev (uuids_used w0))
                 (transactions (db (snd (initiate_withdrawal ev uid amount prov phone True key w)))))
             = Some (Some (case res of
                             Returned r \<Rightarrow> ''Ichancy withdrawal failed: '' @ str_json ev (error r)
                           | Raised e \<Rightarrow> str_exn ev e))
         \<and> users (db (snd (initiate_withdrawal ev uid amount prov phone True key w)))
             = users (db w)
         \<and> payments (db (snd (initiate_withdrawal ev uid amount prov phone True key w)))
             = payments (db w)"
proof -
  from initiate_withdrawal_external_failure [OF assms, of prov phone]
  obtain w' where
    r: "initiate_withdrawal ev uid amount prov phone True key w =
          (Returned (withdrawal_failure (uuid4 ev (uuids_used w0))
                       (case res of
                          Returned r \<Rightarrow> ''Ichancy withdrawal failed: '' @ str_json ev (error r)
                        | Raised e \<Rightarrow> str_exn ev e)), w')"
    and s: "map_option t_state
              (find (\<lambda>t. t_id t = uuid4 ev (uuids_used w0)) (transactions (db w'))) = Some FAILED"
    and m: "map_option error_message
              (find (\<lambda>t. t_id t = uuid4 ev (uuids_used w0)) (transactions (db w')))
              = Some (Some (case res of
                              Returned r \<Rightarrow> ''Ichancy withdrawal failed: '' @ str_json ev (error r)
                            | Raised e \<Rightarrow> str_exn ev e))"
    and u: "users (db w') = users (db w)"
    and p: "payments (db w') = payments (db w)"
    by blast
  from r s m u p show ?thesis
    by (simp add: withdrawal_failure_def del: map_option_eq_Some)
qed

theorem withdrawal_external_failure_failed_witness:
  "fst (initiate_withdrawal demo_env_timeout 2 10000 MANUAL ''0999'' True (Some ''k9'') demo_world)
     = Returned \<lparr>wr_success = False, wr_transaction_id = Some ''u'', wr_message = [],
                 wr_new_balance = None, wr_error = Some ''error''\<rparr>
   \<and> map_option t_state
        (find (\<lambda>t. t_id t = ''u'')
           (transactions (db (snd (initiate_withdrawal demo_env_timeout 2 10000 MANUAL ''0999''
                                     True (Some ''k9'') demo_world))))) = Some FAILED
   \<and> map_option local_balance
        (find (\<lambda>u. u_id u = 2)
           (users (db (snd (initiate_withdrawal demo_env_timeout 2 10000 MANUAL ''0999''
                              True (Some ''k9'') demo_world))))) = Some 50000
   \<and> payments (db (snd (initiate_withdrawal demo_env_timeout 2 10000 MANUAL ''0999''
                          True (Some ''k9'') demo_world))) = demo_payments"
proof -
  have u: "find (\<lambda>u. u_id u = 2) (users (db demo_world)) = Some (demo_users ! 1)"
    by (simp add: demo_defs)
  have nb: "u_state (demo_users ! 1) \<noteq> BLOCKED"
    by (simp add: demo_defs)
  have bal: "\<not> local_balance (demo_users ! 1) < 10000"
    by (simp add: demo_defs)
  have l: "linked (demo_users ! 1)"
    by (simp add: demo_defs linked_def)
  have k: "resolve_key demo_env_timeout ''wdr_'' 2 10000 (Some ''k9'') demo_world
             = (Returned ''k9'', demo_world)"
    by (simp add: resolve_key_def action_defs)
  have i: "uuid4 demo_env_timeout (uuids_used demo_world) = ''u''"
    by (simp add: demo_env_timeout_def demo_defs)
  have fresh: "\<not> list_ex (\<lambda>r. t_id r = uuid4 demo_env_timeout (uuids_used demo_world)
                             \<or> idempotency_key r = Some ''k9'')
                  (transactions (db demo_world))"
    unfolding i by (simp add: demo_defs)
  have x: "ichancy demo_env_timeout (ExtWithdrawal (the (ichancy_username (demo_users ! 1))) 10000)
             (length (ext_calls demo_world)) = (Raised (APITimeoutException ''ichancy'' 15), 105)"
    by (simp add: demo_env_timeout_def)
  have f: "case Raised (APITimeoutException ''ichancy'' 15) of
             Returned r \<Rightarrow> \<not> success r | Raised e \<Rightarrow> True"
    by simp
  have b: "map_option local_balance (find (\<lambda>u. u_id u = 2) (users (db demo_world))) = Some 50000"
    "payments (db demo_world) = demo_payments"
    by (simp_all add: demo_defs)
  have e: "str_exn demo_env_timeout (APITimeoutException ''ichancy'' 15) = ''error''"
    by (simp add: demo_env_timeout_def)
  from withdrawal_external_failure_failed [OF u nb bal l k fresh x f, of MANUAL "''0999''"] i b e
  show ?thesis by (simp del: map_option_eq_Some)
qed

subsection \<open>Withdrawal beyond the balance\<close>

text \<open>
  Claim C5. For every withdrawal request of an existing account that is not blocked,
  whose amount exceeds the account's current local balance, the request is rejected with
  the insufficient-balance error, which carries the account, the required amount and the
  available balance. The rejection comes before any mutation: the world after the call is
  the world before it, so no transaction record is created, no PROCESSING state is entered
  and the external wallet is not called.
\<close>

theorem withdrawal_over_balance_rejected:
  assumes "find (\<lambda>u. u_id u = uid) (users (db w)) = Some user"
    and "u_state user \<noteq> BLOCKED"
    and "local_balance user < amount"
  shows "initiate_withdrawal ev uid amount prov phone wfi key w =
           (Raised (InsufficientBalanceException uid amount (local_balance user)), w)
         \<and> transactions (db (snd (initiate_withdrawal ev uid amount prov phone wfi key w)))
             = transactions (db w)
         \<and> ext_calls (snd (initiate_withdrawal ev uid amount prov phone wfi key w))
             = ext_calls w"
  using withdrawal_insufficient [OF assms] by simp

theorem withdrawal_over_balance_rejected_witness:
  "initiate_withdrawal demo_env_failing 2 60000 MANUAL ''0999'' True None demo_world
     = (Raised (InsufficientBalanceException 2 60000 50000), demo_world)
   \<and> transactions (db (snd (initiate_withdrawal demo_env_failing 2 60000 MANUAL ''0999'' True
                               None demo_world))) = demo_transactions
   \<and> ext_calls (snd (initiate_withdrawal demo_env_failing 2 60000 MANUAL ''0999'' True None
                       demo_world)) = []"
proof -
  have u: "find (\<lambda>u. u_id u = 2) (users (db demo_world)) = Some (demo_users ! 1)"
    by (simp add: demo_defs)
  have n: "u_state (demo_users ! 1) \<noteq> BLOCKED"
    by (simp add: demo_defs)
  have b: "local_balance (demo_users ! 1) < 60000"
    by (simp add: demo_defs)
  have i: "local_balance (demo_users ! 1) = 50000"
    "transactions (db demo_world) = demo_transactions" "ext_calls demo_world = []"
    by (simp_all add: demo_defs)
  from withdrawal_over_balance_rejected
         [OF u n b, of demo_env_failing MANUAL "''0999''" True None] i
  show ?thesis by simp
qed

subsection \<open>Deposit completion without external linkage\<close>

text \<open>
  Claim C6: a successful deposit completion for an account without external-wallet linkage
  leaves the transaction COMPLETED with \<open>balance_after\<close> and the account's local balance
  both equal to \<open>balance_before\<close> plus the transaction amount. The code takes
  \<open>balance_before\<close> when the deposit is initiated and computes \<open>balance_after\<close> from the
  balance it reads again at completion, and \<open>TransactionRepository.update\<close> writes both
  fields of the transaction object back. In the ledger with two pending deposits of
  10,000 for account 1, both initiated at balance 0, both completions succeed. After the
  second, the row of \<open>t4\<close> is COMPLETED with \<open>balance_before\<close> 0 and \<open>balance_after\<close>
  20,000, which is not \<open>balance_before\<close> plus the amount of 10,000; the local balance
  is 20,000.
\<close>

theorem second_deposit_completion_stale_balance_before:
  "find (\<lambda>t. t_id t = ''t4'') (transactions (db demo_world_two_deposits))
     = Some demo_second_deposit
   \<and> t_state demo_second_deposit = PENDING
   \<and> t_amount demo_second_deposit = 10000
   \<and> balance_before demo_second_deposit = Some 0
   \<and> map_option linked (find (\<lambda>u. u_id u = 1) (users (db demo_world_two_deposits)))
       = Some False
   \<and> fst (complete_deposit demo_env_failing ''t1'' True demo_world_two_deposits) =
       Returned \<lparr>dr_success = True, dr_transaction_id = Some ''t1'',
                 dr_message = ''Deposit completed successfully'',
                 dr_new_balance = Some 10000, dr_ichancy_balance = JNull, dr_error = None\<rparr>
   \<and> fst (complete_deposit demo_env_failing ''t4'' True
            (snd (complete_deposit demo_env_failing ''t1'' True demo_world_two_deposits))) =
       Returned \<lparr>dr_success = True, dr_transaction_id = Some ''t4'',
                 dr_message = ''Deposit completed successfully'',
                 dr_new_balance = Some 20000, dr_ichancy_balance = JNull, dr_error = None\<rparr>
   \<and> map_option (\<lambda>t. (t_state t, t_amount t, balance_before t, balance_after t))
        (find (\<lambda>t. t_id t = ''t4'')
           (transactions (db (snd (complete_deposit demo_env_failing ''t4'' True
              (snd (complete_deposit demo_env_failing ''t1'' True demo_world_two_deposits)))))))
       = Some (COMPLETED, 10000, Some 0, Some 20000)
   \<and> map_option local_balance
        (find (\<lambda>u. u_id u = 1)
           (users (db (snd (complete_deposit demo_env_failing ''t4'' True
              (snd (complete_deposit demo_env_failing ''t1'' True demo_world_two_deposits)))))))
       = Some 20000"
  by (simp add: complete_deposit_def TransactionRepository_get_by_id_def
        get_transaction_payment_def UserRepository_get_by_id_def
        TransactionRepository_update_state_def TransactionRepository_update_def
        update_transaction_row_def state_updates_def full_updates_def
        UserRepository_update_balance_def linked_def can_transition_to_def action_defs Let_def
        demo_world_two_deposits_def demo_second_deposit_def demo_second_payment_def
        demo_users_def demo_transactions_def demo_payments_def demo_env_failing_def
        demo_floats_def)

subsection \<open>Opening, rejecting and recovering\<close>



subsection \<open>The half-open breaker\<close>

text \<open>
  Claim C8, as the specification states it, lets at most \<open>half_open_max_calls\<close> trial
  calls through a HALF_OPEN breaker. \<open>can_execute\<close> does not look at the count: the
  example breaker allows one trial call, is HALF_OPEN, and admits a call whenever asked.
  Two runs of the retry executor in a row, whose operation raises an exception outside
  the retryable classes, both invoke the operation, and the breaker is afterwards exactly
  as before, ready to admit the next call.
\<close>

theorem half_open_admits_more_than_max_calls:
  "cb_state demo_half_open_breaker = HALF_OPEN
   \<and> half_open_max_calls demo_half_open_breaker = 1
   \<and> can_execute 200 demo_half_open_breaker = (True, demo_half_open_breaker)
   \<and> invocations
        (snd (retry_async demo_floats demo_config demo_func_crashing (Some 0) None None
                [class_NetworkException] False
                (snd (retry_async demo_floats demo_config demo_func_crashing (Some 0) None None
                        [class_NetworkException] False
                        (demo_rstate (Some demo_half_open_breaker) 200))))) = 2
   \<and> breaker
        (snd (retry_async demo_floats demo_config demo_func_crashing (Some 0) None None
                [class_NetworkException] False
                (snd (retry_async demo_floats demo_config demo_func_crashing (Some 0) None None
                        [class_NetworkException] False
                        (demo_rstate (Some demo_half_open_breaker) 200))))) =
        Some demo_half_open_breaker"
  by (simp add: retry_async_def or_default_def range_int_def check_breaker_def can_execute_def
        state_def invoke_def demo_func_crashing_def isinstance_def demo_breaker_defs Let_def)

text \<open>
  Claim C8, amended. A HALF_OPEN breaker admits every call: \<open>can_execute\<close> answers
  \<open>True\<close> and leaves the breaker unchanged. Any single recorded failure returns it to
  OPEN and sets the failure time to the instant of that failure. Counted from the entry
  into HALF_OPEN, where the count of trial calls is zero, \<open>half_open_max_calls\<close> recorded
  successes (at least one) move the breaker to CLOSED and reset the failure counter to
  zero, and after fewer successes it is still HALF_OPEN.
\<close>

theorem half_open_admits_and_resolves:
  "(cb_state ca = HALF_OPEN \<longrightarrow> can_execute nowa ca = (True, ca))
   \<and> (cb_state cb = HALF_OPEN \<longrightarrow>
        cb_state (record_failure nowb cb) = OPEN \<and>
        cb_last_failure_time (record_failure nowb cb) = Some nowb)
   \<and> (cb_state cc = HALF_OPEN \<and> cb_half_open_calls cc = 0 \<and> 0 < half_open_max_calls cc \<and>
        int n = half_open_max_calls cc \<longrightarrow>
        cb_state (record_successes n cc) = CLOSED \<and>
        cb_failure_count (record_successes n cc) = 0 \<and>
        (\<forall>k < n. cb_state (record_successes k cc) = HALF_OPEN))"
proof (intro conjI impI allI)
  assume "cb_state ca = HALF_OPEN"
  then show "can_execute nowa ca = (True, ca)" by (rule can_execute_half_open)
next
  assume "cb_state cb = HALF_OPEN"
  then show "cb_state (record_failure nowb cb) = OPEN" by (simp add: record_failure_state)
next
  show "cb_last_failure_time (record_failure nowb cb) = Some nowb" by simp
next
  assume c: "cb_state cc = HALF_OPEN \<and> cb_half_open_calls cc = 0 \<and> 0 < half_open_max_calls cc \<and>
        int n = half_open_max_calls cc"
  then show "cb_state (record_successes n cc) = CLOSED" "cb_failure_count (record_successes n cc) = 0"
    using record_successes_closes [of cc n] by simp_all
  fix k assume "k < n"
  with c show "cb_state (record_successes k cc) = HALF_OPEN"
    using record_successes_half_open [of cc k] by simp
qed

theorem half_open_admits_and_resolves_witness:
  "cb_state demo_half_open_breaker = HALF_OPEN
   \<and> can_execute 200 demo_half_open_breaker = (True, demo_half_open_breaker)
   \<and> cb_state (record_failure 200 demo_half_open_breaker) = OPEN
   \<and> cb_last_failure_time (record_failure 200 demo_half_open_breaker) = Some 200
   \<and> cb_state (record_successes 1 demo_half_open_breaker) = CLOSED
   \<and> cb_failure_count (record_successes 1 demo_half_open_breaker) = 0"
proof -
  have h: "cb_state demo_half_open_breaker = HALF_OPEN"
    by (simp add: demo_breaker_defs)
  have c: "cb_state demo_half_open_breaker = HALF_OPEN \<and>
           cb_half_open_calls demo_half_open_breaker = 0 \<and>
           0 < half_open_max_calls demo_half_open_breaker \<and>
           int 1 = half_open_max_calls demo_half_open_breaker"
    by (simp add: demo_breaker_defs)
  from half_open_admits_and_resolves
         [of demo_half_open_breaker 200 demo_half_open_breaker 200 demo_half_open_breaker 1]
       h c
  show ?thesis by simp
qed

subsection \<open>The retry executor\<close>



subsection \<open>Classification of responses by the external wallet client\<close>

text \<open>
  Claim C10. For a response with HTTP status below 400 whose body does not parse as JSON,
  \<open>_request\<close> returns a result with \<open>success = True\<close> whose data holds the raw body text.
  With a status below 400, a result with \<open>success = False\<close> arises only from a parsed
  JSON object that carries \<open>hasError = "yes"\<close>, a non-empty \<open>error\<close> field or
  \<open>status = "error"\<close>; and every such object does yield it.
\<close>

theorem request_classification:
  "(status_code r1 < 400 \<and> parsed_json r1 = None \<longrightarrow>
      request tmo (Response r1) =
        Returned \<lparr>success = True, data = JObj [(''raw'', JStr (resp_text r1))], error = JNull,
                  raw_response = JStr (resp_text r1)\<rparr>)
   \<and> (status_code r2 < 400 \<and> request tmo (Response r2) = Returned resp \<and> \<not> success resp \<longrightarrow>
        (\<exists>kvs. parsed_json r2 = Some (JObj kvs) \<and>
               (dict_get kvs ''hasError'' = JStr ''yes'' \<or> truthy (dict_get kvs ''error'')
                \<or> dict_get kvs ''status'' = JStr ''error'')))
   \<and> (status_code r3 < 400 \<and> parsed_json r3 = Some (JObj kvs3) \<and>
        (dict_get kvs3 ''hasError'' = JStr ''yes'' \<or> truthy (dict_get kvs3 ''error'')
         \<or> dict_get kvs3 ''status'' = JStr ''error'') \<longrightarrow>
        (\<exists>resp3. request tmo (Response r3) = Returned resp3 \<and> \<not> success resp3
                 \<and> data resp3 = JObj kvs3))"
proof (intro conjI impI)
  assume "status_code r1 < 400 \<and> parsed_json r1 = None"
  then show "request tmo (Response r1) =
        Returned \<lparr>success = True, data = JObj [(''raw'', JStr (resp_text r1))], error = JNull,
                  raw_response = JStr (resp_text r1)\<rparr>"
    by (simp add: request_def)
next
  assume a: "status_code r2 < 400 \<and> request tmo (Response r2) = Returned resp \<and> \<not> success resp"
  show "\<exists>kvs. parsed_json r2 = Some (JObj kvs) \<and>
               (dict_get kvs ''hasError'' = JStr ''yes'' \<or> truthy (dict_get kvs ''error'')
                \<or> dict_get kvs ''status'' = JStr ''error'')"
  proof (cases "parsed_json r2")
    case None
    with a show ?thesis by (auto simp: request_def)
  next
    case (Some d)
    with a show ?thesis
      by (cases d) (auto simp: request_def Let_def split: if_splits)
  qed
next
  assume "status_code r3 < 400 \<and> parsed_json r3 = Some (JObj kvs3) \<and>
        (dict_get kvs3 ''hasError'' = JStr ''yes'' \<or> truthy (dict_get kvs3 ''error'')
         \<or> dict_get kvs3 ''status'' = JStr ''error'')"
  then show "\<exists>resp3. request tmo (Response r3) = Returned resp3 \<and> \<not> success resp3
                 \<and> data resp3 = JObj kvs3"
    by (auto simp: request_def Let_def)
qed

theorem request_classification_witness:
  "status_code demo_html_response < 400 \<and> parsed_json demo_html_response = None
   \<and> request 15 (Response demo_html_response) =
        Returned \<lparr>success = True, data = JObj [(''raw'', JStr ''<html>Bad Gateway</html>'')],
                  error = JNull, raw_response = JStr ''<html>Bad Gateway</html>''\<rparr>
   \<and> status_code demo_error_response < 400
   \<and> request 15 (Response demo_error_response) =
        Returned \<lparr>success = False,
                  data = JObj [(''hasError'', JStr ''yes''), (''msg'', JStr ''no such player'')],
                  error = JStr ''no such player'',
                  raw_response = JObj [(''hasError'', JStr ''yes''), (''msg'', JStr ''no such player'')]\<rparr>
   \<and> dict_get [(''hasError'', JStr ''yes''), (''msg'', JStr ''no such player'')] ''hasError''
       = JStr ''yes''"
proof -
  have e: "request 15 (Response demo_error_response) =
        Returned \<lparr>success = False,
                  data = JObj [(''hasError'', JStr ''yes''), (''msg'', JStr ''no such player'')],
                  error = JStr ''no such player'',
                  raw_response = JObj [(''hasError'', JStr ''yes''), (''msg'', JStr ''no such player'')]\<rparr>"
    by (simp add: request_def demo_error_response_def dict_get_def dict_get_default_def
          py_or_def Let_def)
  from request_classification
         [of demo_html_response 15 demo_error_response
             "\<lparr>success = False,
               data = JObj [(''hasError'', JStr ''yes''), (''msg'', JStr ''no such player'')],
               error = JStr ''no such player'',
               raw_response = JObj [(''hasError'', JStr ''yes''), (''msg'', JStr ''no such player'')]\<rparr>"
             demo_error_response
             "[(''hasError'', JStr ''yes''), (''msg'', JStr ''no such player'')]"]
       e
  show ?thesis
    by (simp add: demo_html_response_def demo_error_response_def dict_get_def)
qed

end
